theory Spec2Isabelle
  imports Main "HOL-Library.Sublist"
begin

section \<open>Python strings and values\<close>

text \<open>
  A Python \<^verbatim>\<open>str\<close> is the list of its code points, and a character of this theory is a
  code point below 256: text with a code point from 256 upwards has no counterpart here.
  On that range \<^verbatim>\<open>str.isspace\<close> (which \<^verbatim>\<open>strip()\<close> follows) holds of the six ASCII blanks,
  of the four separators 28 to 31, of NEL (133) and of the no-break space (160), and
  \<^verbatim>\<open>str.lower\<close> moves the capital letters \<open>A\<close> to \<open>Z\<close> and 192 to 222 (but for the
  multiplication sign, 215) up by 32.  Floating point values are not part of the value type.
\<close>

definition py_isspace :: "char \<Rightarrow> bool" where
  "py_isspace c = (c \<in> set [CHR 0x09, CHR 0x0A, CHR 0x0B, CHR 0x0C, CHR 0x0D,
                              CHR 0x1C, CHR 0x1D, CHR 0x1E, CHR 0x1F, CHR 0x20,
                              CHR 0x85, CHR 0xA0])"

definition upper_chars :: string where
  "upper_chars =
     ''ABCDEFGHIJKLMNOPQRSTUVWXYZ'' @
       [CHR 0xC0, CHR 0xC1, CHR 0xC2, CHR 0xC3, CHR 0xC4, CHR 0xC5, CHR 0xC6, CHR 0xC7,
        CHR 0xC8, CHR 0xC9, CHR 0xCA, CHR 0xCB, CHR 0xCC, CHR 0xCD, CHR 0xCE, CHR 0xCF,
        CHR 0xD0, CHR 0xD1, CHR 0xD2, CHR 0xD3, CHR 0xD4, CHR 0xD5, CHR 0xD6, CHR 0xD8,
        CHR 0xD9, CHR 0xDA, CHR 0xDB, CHR 0xDC, CHR 0xDD, CHR 0xDE]"

definition lower_chars :: string where
  "lower_chars =
     ''abcdefghijklmnopqrstuvwxyz'' @
       [CHR 0xE0, CHR 0xE1, CHR 0xE2, CHR 0xE3, CHR 0xE4, CHR 0xE5, CHR 0xE6, CHR 0xE7,
        CHR 0xE8, CHR 0xE9, CHR 0xEA, CHR 0xEB, CHR 0xEC, CHR 0xED, CHR 0xEE, CHR 0xEF,
        CHR 0xF0, CHR 0xF1, CHR 0xF2, CHR 0xF3, CHR 0xF4, CHR 0xF5, CHR 0xF6, CHR 0xF8,
        CHR 0xF9, CHR 0xFA, CHR 0xFB, CHR 0xFC, CHR 0xFD, CHR 0xFE]"

definition lower_char :: "char \<Rightarrow> char" where
  "lower_char c = (case map_of (zip upper_chars lower_chars) c of None \<Rightarrow> c | Some d \<Rightarrow> d)"

definition py_lower :: "string \<Rightarrow> string" where
  "py_lower s = map lower_char s"

text \<open>\<^verbatim>\<open>s.lstrip(chars)\<close>, \<^verbatim>\<open>s.rstrip(chars)\<close>, \<^verbatim>\<open>s.strip(chars)\<close> for a character predicate.\<close>

definition lstrip_by :: "(char \<Rightarrow> bool) \<Rightarrow> string \<Rightarrow> string" where
  "lstrip_by P s = dropWhile P s"

definition rstrip_by :: "(char \<Rightarrow> bool) \<Rightarrow> string \<Rightarrow> string" where
  "rstrip_by P s = rev (dropWhile P (rev s))"

definition strip_by :: "(char \<Rightarrow> bool) \<Rightarrow> string \<Rightarrow> string" where
  "strip_by P s = rstrip_by P (lstrip_by P s)"

definition py_strip :: "string \<Rightarrow> string" where
  "py_strip s = strip_by py_isspace s"

text \<open>\<^verbatim>\<open>p in s\<close> for strings: \<open>p\<close> occurs in \<open>s\<close> as a contiguous block.\<close>

definition py_in :: "string \<Rightarrow> string \<Rightarrow> bool" where
  "py_in p s = sublist p s"

text \<open>
  \<^verbatim>\<open>s.split(sep, 1)[0]\<close> is the text before the first occurrence of \<open>sep\<close> (all of \<open>s\<close>
  when there is none); \<^verbatim>\<open>s.split(sep, 1)[1]\<close> is the text after it and raises IndexError
  (here \<open>None\<close>) when there is none.
\<close>

fun split1_before :: "string \<Rightarrow> string \<Rightarrow> string" where
  "split1_before sep [] = []"
| "split1_before sep (c # cs) =
     (if prefix sep (c # cs) then [] else c # split1_before sep cs)"

fun split1_after :: "string \<Rightarrow> string \<Rightarrow> string option" where
  "split1_after sep [] = None"
| "split1_after sep (c # cs) =
     (if prefix sep (c # cs) then Some (drop (length sep) (c # cs)) else split1_after sep cs)"

fun join :: "string \<Rightarrow> string list \<Rightarrow> string" where
  "join sep [] = []"
| "join sep [x] = x"
| "join sep (x # y # ys) = x @ sep @ join sep (y # ys)"

fun digits :: "nat \<Rightarrow> string" where
  "digits n = (if n < 10 then [''0123456789'' ! n]
               else digits (n div 10) @ [''0123456789'' ! (n mod 10)])"

declare digits.simps [simp del]

definition str_int :: "int \<Rightarrow> string" where
  "str_int i = (if i < 0 then CHR ''-'' # digits (nat (- i)) else digits (nat i))"

datatype pyval = PNone | PBool bool | PInt int | PStr string

datatype py_error = AttributeError | IntegrityError | ProgrammingError | OverflowError

fun truthy :: "pyval \<Rightarrow> bool" where
  "truthy PNone = False"
| "truthy (PBool b) = b"
| "truthy (PInt n) = (n \<noteq> 0)"
| "truthy (PStr s) = (s \<noteq> [])"

text \<open>\<^verbatim>\<open>a or b\<close>.\<close>

definition py_or :: "pyval \<Rightarrow> pyval \<Rightarrow> pyval" where
  "py_or a b = (if truthy a then a else b)"

text \<open>\<^verbatim>\<open>str(v)\<close>.\<close>

fun py_str :: "pyval \<Rightarrow> string" where
  "py_str PNone = ''None''"
| "py_str (PBool b) = (if b then ''True'' else ''False'')"
| "py_str (PInt n) = str_int n"
| "py_str (PStr s) = s"

text \<open>\<^verbatim>\<open>v.strip()\<close>: only a string has the method.\<close>

fun strip_method :: "pyval \<Rightarrow> py_error + string" where
  "strip_method (PStr s) = Inr (py_strip s)"
| "strip_method _ = Inl AttributeError"

definition bind_err :: "'e + 'a \<Rightarrow> ('a \<Rightarrow> 'e + 'b) \<Rightarrow> 'e + 'b" where
  "bind_err m f = (case m of Inl e \<Rightarrow> Inl e | Inr x \<Rightarrow> f x)"

type_synonym pydict = "string \<rightharpoonup> pyval"

text \<open>A dictionary literal or CSV row, in insertion order.\<close>

type_synonym raw_row = "(string \<times> pyval) list"

text \<open>\<^verbatim>\<open>d.get(k)\<close>.\<close>

definition dget :: "pydict \<Rightarrow> string \<Rightarrow> pyval" where
  "dget d k = (case d k of None \<Rightarrow> PNone | Some v \<Rightarrow> v)"

section \<open>Record normalizer (db.py)\<close>

text \<open>
  \<^verbatim>\<open>{str(k).strip().lower(): v for k, v in (r or {}).items()}\<close>: a later key that
  normalizes to the same name replaces the earlier value.
\<close>

definition lower_keys :: "raw_row \<Rightarrow> pydict" where
  "lower_keys r = map_of (rev (map (\<lambda>(k, v). (py_lower (py_strip k), v)) r))"

definition local_sources :: "string list" where
  "local_sources = [''google_maps'', ''gmb'', ''maps'', ''local'']"

text \<open>
  \<^verbatim>\<open>p.split(marker, 1)[1].split("?", 1)[0].strip("/").split("/", 1)[0]\<close>
\<close>

definition segment_after :: "string \<Rightarrow> string \<Rightarrow> string option" where
  "segment_after marker p =
     (case split1_after marker p of
        None \<Rightarrow> None
      | Some rest \<Rightarrow>
          Some (split1_before ''/'' (strip_by (\<lambda>c. c = CHR ''/'') (split1_before ''?'' rest))))"

text \<open>Lines 485-493: the handle taken from the profile URL; any exception keeps the handle.\<close>

definition derive_handle :: "string \<Rightarrow> string \<Rightarrow> string" where
  "derive_handle profile_url handle =
     (if profile_url \<noteq> [] \<and> handle = [] then
        (if py_in ''instagram.com/'' profile_url then
           (case segment_after ''instagram.com/'' profile_url of None \<Rightarrow> handle | Some h \<Rightarrow> h)
         else if py_in ''facebook.com/'' profile_url then
           (case segment_after ''facebook.com/'' profile_url of None \<Rightarrow> handle | Some h \<Rightarrow> h)
         else handle)
      else handle)"

text \<open>Lines 475-476: the handle found under its aliases.\<close>

definition alias_handle :: "pydict \<Rightarrow> py_error + string" where
  "alias_handle out =
     bind_err
       (strip_method
          (py_or (dget out ''handle'') (py_or (dget out ''username'')
             (py_or (dget out ''user'') (py_or (dget out ''page'') (PStr ''''))))))
       (\<lambda>h. Inr (py_strip (lstrip_by (\<lambda>c. c = CHR ''@'') h)))"

text \<open>Lines 478-483: the profile URL found under its aliases, or a platform \<open>url\<close>.\<close>

definition alias_profile_url :: "pydict \<Rightarrow> py_error + string" where
  "alias_profile_url out =
     bind_err
       (strip_method
          (py_or (dget out ''profile_url'') (py_or (dget out ''profile'')
             (py_or (dget out ''profilelink'') (py_or (dget out ''profile_link'') (PStr ''''))))))
       (\<lambda>p. if p \<noteq> [] then Inr p
             else bind_err (strip_method (py_or (dget out ''url'') (PStr '''')))
                    (\<lambda>u. Inr (if py_in ''instagram.com/'' u \<or> py_in ''facebook.com/'' u
                               then u else p)))"

text \<open>Lines 497-498: local business imports fall back to the profile URL or the name.\<close>

definition local_fallback :: "pydict \<Rightarrow> string \<Rightarrow> string \<Rightarrow> string \<Rightarrow> py_error + string" where
  "local_fallback out source profile_url handle =
     (if handle = [] \<and> py_lower (py_strip source) \<in> set local_sources then
        strip_method (py_or (PStr profile_url) (py_or (dget out ''name'') (PStr '''')))
      else Inr handle)"

text \<open>Lines 503-512: an empty field takes the first non-empty alias.\<close>

definition fill_from :: "string \<Rightarrow> string list \<Rightarrow> pydict \<Rightarrow> pydict" where
  "fill_from k aliases out =
     (if \<not> truthy (dget out k)
      then out(k \<mapsto> foldr (\<lambda>a rest. py_or (dget out a) rest) aliases (PStr ''''))
      else out)"

definition normalize_row :: "raw_row \<Rightarrow> string \<Rightarrow> py_error + pydict" where
  "normalize_row r source =
     (let out = lower_keys r in
      bind_err (alias_handle out) (\<lambda>handle.
      bind_err (alias_profile_url out) (\<lambda>profile_url.
      bind_err (local_fallback out source profile_url (derive_handle profile_url handle))
        (\<lambda>handle.
           Inr (fill_from ''recent_post_snippet'' [''snippet'', ''caption'', ''post_text'']
               (fill_from ''phone'' [''phone_number'', ''tel'', ''mobile'']
               (fill_from ''website'' [''website_url'', ''site'']
               (fill_from ''bio'' [''description'', ''about'']
               (out(''handle'' \<mapsto> PStr handle, ''profile_url'' \<mapsto> PStr profile_url))))))))))"

section \<open>Quality scoring (scoring.py)\<close>

text \<open>\<^verbatim>\<open>re.findall(r"[a-z0-9@#\.\-\+]+", text.lower())\<close>: the maximal runs of token characters.\<close>

definition tok_char :: "char \<Rightarrow> bool" where
  "tok_char c = (c \<in> set ''abcdefghijklmnopqrstuvwxyz0123456789@#.-+'')"

fun tokens_from :: "string \<Rightarrow> string \<Rightarrow> string list" where
  "tokens_from cur [] = (if cur = [] then [] else [cur])"
| "tokens_from cur (c # cs) =
     (if tok_char c then tokens_from (cur @ [c]) cs
      else (if cur = [] then [] else [cur]) @ tokens_from [] cs)"

definition tokenize :: "string \<Rightarrow> string list" where
  "tokenize s = tokens_from [] (py_lower s)"

definition booking_phrases :: "string list" where
  "booking_phrases =
     [''taking new clients'', ''available this week'', ''dm to book'', ''dm to schedule'',
      ''book a job'', ''book now'', ''free quote'', ''get a quote'', ''estimate'', ''same day'',
      ''next day'', ''emergency'', ''call'', ''whatsapp'', ''text me'', ''message me'',
      ''appointment'', ''booking'']"

definition pain_phrases :: "string list" where
  "pain_phrases =
     [''lost leads'', ''missing leads'', ''missed calls'', ''too many dms'', ''need more calls'',
      ''need more leads'', ''need more bookings'', ''need a website'', ''my website is old'',
      ''website is outdated'', ''link in bio'']"

definition service_tokens :: "(string \<times> int) list" where
  "service_tokens =
     [(''electrician'', 32), (''electrical'', 22), (''plumber'', 32), (''plumbing'', 22),
      (''handyman'', 32), (''handy-man'', 32), (''carpenter'', 30), (''carpentry'', 20),
      (''gardener'', 30), (''gardening'', 20), (''painter'', 18), (''installer'', 16),
      (''hvac'', 18), (''roofing'', 14), (''contractor'', 12), (''landscaper'', 16),
      (''landscaping'', 12), (''cleaner'', 12), (''cleaning'', 10), (''flooring'', 10),
      (''tiler'', 10), (''locksmith'', 12), (''mechanic'', 12)]"

definition solo_seller_tokens :: "(string \<times> int) list" where
  "solo_seller_tokens =
     [(''coach'', 16), (''consultant'', 14), (''therapist'', 14), (''trainer'', 12),
      (''mentor'', 10), (''advisor'', 10), (''copywriter'', 8), (''designer'', 4)]"

definition owner_tokens :: "string list" where
  "owner_tokens =
     [''owner'', ''owneroperator'', ''selfemployed'', ''self-employed'', ''solo'',
      ''smallbusiness'', ''small business'']"

definition weak_hosts :: "string list" where
  "weak_hosts = [''linktr.ee'', ''carrd.co'', ''notion.site'', ''beacons.ai'', ''taplink.cc'',
                 ''stan.store'']"

definition weakish :: "string list" where
  "weakish = weak_hosts @ [''instagram.com'', ''facebook.com'', ''tiktok.com'', ''maps.google.'',
                           ''g.page'', ''goo.gl/maps'']"

definition negative :: "(string \<times> int) list" where
  "negative =
     [(''developer'', -22), (''engineer'', -18), (''software'', -14), (''github'', -22),
      (''agency'', -16), (''webdev'', -14), (''freelance'', -6), (''forhire'', -10),
      (''buildinginpublic'', -14), (''buildinpublic'', -14), (''webflow'', -16),
      (''wordpress'', -10), (''wix'', -10), (''squarespace'', -10), (''framer'', -12),
      (''bubble'', -12), (''nocode'', -12), (''no-code'', -12), (''indiehackers'', -14),
      (''indiehacker'', -14), (''growthhacker'', -14), (''prompt'', -10)]"

definition committee_phrases :: "string list" where
  "committee_phrases =
     [''marketing team'', ''head of'', ''director'', ''vp '', ''cmo'', ''manager'',
      ''procurement'', ''rfp'', ''enterprise'', ''stakeholders'', ''proposal'']"

text \<open>
  \<^verbatim>\<open>re.search(r"([a-zA-Z0-9._%+\-]+@[a-zA-Z0-9.\-]+\.[a-zA-Z]{2,})", text)\<close>.  A match is an
  \<open>@\<close> with a local character before it and, in the run of domain characters after it, a dot
  that is not the first character and is followed by two letters.
\<close>

definition ascii_letter :: "char \<Rightarrow> bool" where
  "ascii_letter c = (c \<in> set ''abcdefghijklmnopqrstuvwxyzABCDEFGHIJKLMNOPQRSTUVWXYZ'')"

definition ascii_digit :: "char \<Rightarrow> bool" where
  "ascii_digit c = (c \<in> set ''0123456789'')"

definition email_local_char :: "char \<Rightarrow> bool" where
  "email_local_char c = (ascii_letter c \<or> ascii_digit c \<or> c \<in> set ''._%+-'')"

definition email_domain_char :: "char \<Rightarrow> bool" where
  "email_domain_char c = (ascii_letter c \<or> ascii_digit c \<or> c \<in> set ''.-'')"

fun dot_tld :: "string \<Rightarrow> bool" where
  "dot_tld (a # b # c # cs) =
     ((a = CHR ''.'' \<and> ascii_letter b \<and> ascii_letter c) \<or> dot_tld (b # c # cs))"
| "dot_tld _ = False"

definition email_domain :: "string \<Rightarrow> bool" where
  "email_domain post =
     (case takeWhile email_domain_char post of [] \<Rightarrow> False | d # ds \<Rightarrow> dot_tld ds)"

fun email_search :: "char option \<Rightarrow> string \<Rightarrow> bool" where
  "email_search prev [] = False"
| "email_search prev (c # cs) =
     ((c = CHR ''@'' \<and> (case prev of None \<Rightarrow> False | Some p \<Rightarrow> email_local_char p)
         \<and> email_domain cs)
      \<or> email_search (Some c) cs)"

text \<open>\<^verbatim>\<open>str(r.get(k) or "")\<close>\<close>

definition field_str :: "pydict \<Rightarrow> string \<Rightarrow> string" where
  "field_str r k = py_str (py_or (dget r k) (PStr ''''))"

text \<open>Line 28: the eight fields joined by blanks, stripped.\<close>

definition row_text :: "pydict \<Rightarrow> string" where
  "row_text r =
     py_strip (join '' '' [field_str r ''name'', field_str r ''bio'', field_str r ''location'',
                           field_str r ''website'', field_str r ''phone'',
                           field_str r ''recent_post_snippet'',
                           field_str r ''signal_keywords_matched'', field_str r ''profile_url''])"

text \<open>
  Each rule of \<^verbatim>\<open>score_row\<close> gives what it adds to \<open>score\<close> and what it appends to
  \<open>reasons\<close>.
\<close>

definition matched :: "string list \<Rightarrow> string \<Rightarrow> string list" where
  "matched phrases text_l = filter (\<lambda>p. py_in p text_l) phrases"

text \<open>Lines 56-59.\<close>

definition rule_intent :: "string \<Rightarrow> int \<times> string list" where
  "rule_intent text_l =
     (let m = matched booking_phrases text_l in
      if m \<noteq> [] then (min 44 (14 + 6 * min 5 (int (length m))),
                         [''intent:'' @ join '', '' (take 5 m)])
      else (0, []))"

text \<open>Lines 74-77.\<close>

definition rule_pain :: "string \<Rightarrow> int \<times> string list" where
  "rule_pain text_l =
     (let m = matched pain_phrases text_l in
      if m \<noteq> [] then (min 18 (8 + 3 * min 4 (int (length m))),
                         [''pain:'' @ join '', '' (take 4 m)])
      else (0, []))"

text \<open>Lines 106-110, 123-126, 203-206: one entry of a token table after the other.\<close>

fun rule_tokens :: "string \<Rightarrow> (string \<times> int) list \<Rightarrow> string list \<Rightarrow> int \<times> string list" where
  "rule_tokens tag [] toks = (0, [])"
| "rule_tokens tag ((k, pts) # rest) toks =
     (let (s, rs) = rule_tokens tag rest toks in
      if k \<in> set toks then (pts + s, (tag @ k) # rs) else (s, rs))"

definition has_local_service :: "string list \<Rightarrow> bool" where
  "has_local_service toks = list_ex (\<lambda>(k, pts). k \<in> set toks) service_tokens"

text \<open>
  Lines 130-132.  \<^verbatim>\<open>owner_tokens\<close> is a set of strings, and the order in which \<^verbatim>\<open>any\<close> walks
  through it follows the hash seed of the running process: \<open>order\<close> is that enumeration of
  the set.
\<close>

definition rule_owner :: "string list \<Rightarrow> string \<Rightarrow> string list \<Rightarrow> int \<times> string list" where
  "rule_owner order text_l toks =
     (if list_ex (\<lambda>t. py_in t text_l) order \<or> ''owner'' \<in> set toks
      then (8, [''decision:solo'']) else (0, []))"

datatype website_state = unknown | none | weak | strong

text \<open>Lines 137-156: the state, the points and the reason.\<close>

definition rule_website :: "string \<Rightarrow> string \<Rightarrow> website_state \<times> int \<times> string list" where
  "rule_website website text_l =
     (if py_strip website = [] then
        (if list_ex (\<lambda>x. py_in x text_l) [''whatsapp'', ''call'', ''dm'', ''book'', ''quote'']
         then (none, 16, [''no_website_but_contact''])
         else (none, 10, [''no_website'']))
      else
        (if list_ex (\<lambda>h. py_in h (py_lower website)) weakish
         then (weak, 16, [''weak_link_in_bio''])
         else (strong, 3, [''has_website''])))"

text \<open>Lines 160-162.\<close>

definition rule_fit :: "bool \<Rightarrow> website_state \<Rightarrow> int \<times> string list" where
  "rule_fit local_service st =
     (if local_service \<and> (st = none \<or> st = weak)
      then ((if st = none then 22 else 18), [''fit:local_service_weak_web''])
      else (0, []))"

text \<open>Lines 165-176.\<close>

definition rule_whatsapp :: "string \<Rightarrow> string list \<Rightarrow> int \<times> string list" where
  "rule_whatsapp text_l toks =
     (if ''whatsapp'' \<in> set toks \<or> py_in ''wa.me'' text_l
      then (18, [''contact:whatsapp'']) else (0, []))"

definition rule_phone :: "string \<Rightarrow> int \<times> string list" where
  "rule_phone phone_field =
     (if py_strip phone_field \<noteq> [] then (14, [''contact:phone'']) else (0, []))"

definition rule_tel :: "string \<Rightarrow> int \<times> string list" where
  "rule_tel text_l = (if py_in ''tel:'' text_l then (8, [''contact:phone_link'']) else (0, []))"

definition rule_email :: "string \<Rightarrow> int \<times> string list" where
  "rule_email txt = (if email_search None txt then (6, [''contact:email'']) else (0, []))"

text \<open>Lines 222-225.\<close>

definition rule_committee :: "string \<Rightarrow> int \<times> string list" where
  "rule_committee text_l =
     (let m = matched committee_phrases text_l in
      if m \<noteq> [] then (- min 26 (12 + 4 * min 4 (int (length m))), [''neg:committee''])
      else (0, []))"

text \<open>The rules in the order of the source, each with its points and reasons.\<close>

definition fired :: "string list \<Rightarrow> pydict \<Rightarrow> (int \<times> string list) list" where
  "fired order r =
     (let txt = row_text r;
          text_l = py_lower txt;
          toks = tokenize text_l;
          (st, site) = rule_website (field_str r ''website'') text_l
      in [rule_intent text_l,
          rule_pain text_l,
          rule_tokens ''svc:'' service_tokens toks,
          rule_tokens ''role:'' solo_seller_tokens toks,
          rule_owner order text_l toks,
          site,
          rule_fit (has_local_service toks) st,
          rule_whatsapp text_l toks,
          rule_phone (field_str r ''phone''),
          rule_tel text_l,
          rule_email txt,
          rule_tokens ''neg:'' negative toks,
          rule_committee text_l])"

text \<open>The sum before line 227 clamps it.\<close>

definition raw_score :: "string list \<Rightarrow> pydict \<Rightarrow> int" where
  "raw_score order r = sum_list (map fst (fired order r))"

text \<open>
  \<^verbatim>\<open>score_row\<close>, run in a process that enumerates \<^verbatim>\<open>owner_tokens\<close> as \<open>order\<close>.  The source
  reads the row with \<^verbatim>\<open>r.get\<close> and writes to its local variables only.
\<close>

definition score_row :: "string list \<Rightarrow> pydict \<Rightarrow> int \<times> string list" where
  "score_row order r =
     (max 0 (min 100 (raw_score order r)), concat (map snd (fired order r)))"

section \<open>Lead store (db.py)\<close>

text \<open>
  One row of table \<open>leads\<close>.  A nullable TEXT or INTEGER column is an option.  The six
  website audit columns carry the prefix \<open>lead_\<close>, the primary key is \<open>lead_id\<close>.
\<close>

record lead =
  lead_id :: int
  source :: string
  handle :: string
  profile_url :: "string option"
  name :: "string option"
  bio :: "string option"
  followers :: "int option"
  location :: "string option"
  website :: "string option"
  phone :: "string option"
  email :: "string option"
  recent_post_snippet :: "string option"
  signal_keywords_matched :: "string option"
  score :: "int option"
  reason :: "string option"
  lead_website_score :: "int option"
  lead_website_verdict :: "string option"
  lead_website_findings :: "string option"
  lead_website_checked_at :: "int option"
  lead_website_final_url :: "string option"
  lead_website_http_status :: "int option"
  status :: string
  "notes" :: string
  tags :: string
  last_seen_at :: int
  created_at :: int

text \<open>The table and the AUTOINCREMENT counter of its primary key.\<close>

record db =
  leads :: "lead list"
  rowid_seq :: int

text \<open>
  \<^verbatim>\<open>_to_int\<close>.  \<^verbatim>\<open>int(float(s))\<close> is Python's float parser; it is the parameter
  \<open>int_of_float\<close>, with \<open>None\<close> where it raises.  A bool is an int.
\<close>

definition to_int :: "(string \<Rightarrow> int option) \<Rightarrow> pyval \<Rightarrow> int option" where
  "to_int int_of_float v =
     (case v of
        PNone \<Rightarrow> None
      | PBool b \<Rightarrow> Some (if b then 1 else 0)
      | PInt n \<Rightarrow> Some n
      | PStr s \<Rightarrow> (let t = py_strip s in if t = [] then None else int_of_float t))"

text \<open>sqlite3 binds a Python int as a 64-bit integer and raises OverflowError beyond it.\<close>

definition fits_int64 :: "int option \<Rightarrow> bool" where
  "fits_int64 v = (case v of None \<Rightarrow> True | Some n \<Rightarrow> - (2 ^ 63) \<le> n \<and> n < 2 ^ 63)"

text \<open>\<^verbatim>\<open>(r2.get(k) or "").strip()\<close>\<close>

definition text_param :: "pydict \<Rightarrow> string \<Rightarrow> py_error + string" where
  "text_param r2 k = strip_method (py_or (dget r2 k) (PStr ''''))"

text \<open>
  Lines 148-154.  The scoring function is a parameter of the source as well; \<open>None\<close> as its
  result stands for an exception, which the source swallows.
\<close>

type_synonym score_fn = "pydict \<Rightarrow> (int \<times> string list) option"

definition apply_score ::
  "(string \<Rightarrow> int option) \<Rightarrow> bool \<Rightarrow> score_fn option \<Rightarrow> pydict \<Rightarrow> pydict" where
  "apply_score int_of_float compute_score_if_missing sf r2 =
     (if compute_score_if_missing \<and> to_int int_of_float (dget r2 ''score'') = None then
        (case sf of
           None \<Rightarrow> r2
         | Some f \<Rightarrow>
             (case f r2 of
                None \<Rightarrow> r2
              | Some (s, reasons) \<Rightarrow>
                  r2(''score'' \<mapsto> PInt s, ''reason'' \<mapsto> PStr (join '' | '' (take 18 reasons)))))
      else r2)"

text \<open>
  Lines 180-197: the sixteen values bound to the INSERT, as the row SQLite calls
  \<open>excluded\<close>.  The columns the statement does not name take their defaults.
\<close>

definition excluded_row ::
  "(string \<Rightarrow> int option) \<Rightarrow> int \<Rightarrow> string \<Rightarrow> string \<Rightarrow> string \<Rightarrow> pydict
     \<Rightarrow> py_error + lead" where
  "excluded_row int_of_float now src h purl r2 =
     bind_err (text_param r2 ''name'') (\<lambda>v_name.
     bind_err (text_param r2 ''bio'') (\<lambda>v_bio.
     bind_err (text_param r2 ''location'') (\<lambda>v_location.
     bind_err (text_param r2 ''website'') (\<lambda>v_website.
     bind_err (text_param r2 ''phone'') (\<lambda>v_phone.
     bind_err (text_param r2 ''email'') (\<lambda>v_email.
     bind_err (text_param r2 ''recent_post_snippet'') (\<lambda>v_snippet.
     bind_err (text_param r2 ''signal_keywords_matched'') (\<lambda>v_signal.
     bind_err (text_param r2 ''reason'') (\<lambda>v_reason.
       let v_followers = to_int int_of_float (dget r2 ''followers'');
           v_score = to_int int_of_float (dget r2 ''score'')
       in if \<not> (fits_int64 v_followers \<and> fits_int64 v_score) then Inl OverflowError
          else Inr \<lparr> lead_id = 0, source = src, handle = h,
                 profile_url = (if purl = [] then None else Some purl),
                 name = Some v_name, bio = Some v_bio, followers = v_followers,
                 location = Some v_location, website = Some v_website,
                 phone = Some v_phone, email = Some v_email,
                 recent_post_snippet = Some v_snippet,
                 signal_keywords_matched = Some v_signal,
                 score = v_score, reason = Some v_reason,
                 lead_website_score = None, lead_website_verdict = None,
                 lead_website_findings = None, lead_website_checked_at = None,
                 lead_website_final_url = None, lead_website_http_status = None,
                 status = ''new'', notes = '''', tags = ''[]'',
                 last_seen_at = now, created_at = now \<rparr>)))))))))"

text \<open>SQL \<open>NULLIF\<close> and two-argument \<open>COALESCE\<close> on a nullable TEXT value.\<close>

definition nullif :: "string option \<Rightarrow> string \<Rightarrow> string option" where
  "nullif v s = (if v = Some s then None else v)"

definition coalesce :: "string option \<Rightarrow> string option \<Rightarrow> string option" where
  "coalesce a b = (case a of None \<Rightarrow> b | Some x \<Rightarrow> Some x)"

text \<open>\<open>UNIQUE(source, handle)\<close>: the stored row an inserted row conflicts with.\<close>

definition conflicts :: "lead \<Rightarrow> lead \<Rightarrow> bool" where
  "conflicts ex l = (source l = source ex \<and> handle l = handle ex)"

text \<open>Lines 165-178: the \<open>DO UPDATE SET\<close> list.\<close>

definition merge_lead :: "lead \<Rightarrow> lead \<Rightarrow> lead" where
  "merge_lead ex l =
     l\<lparr> profile_url := coalesce (nullif (profile_url ex) '''') (profile_url l),
        name := name ex,
        bio := bio ex,
        followers := followers ex,
        location := location ex,
        website := coalesce (nullif (website ex) '''') (website l),
        phone := coalesce (nullif (phone ex) '''') (phone l),
        email := coalesce (nullif (email ex) '''') (email l),
        recent_post_snippet := recent_post_snippet ex,
        signal_keywords_matched := signal_keywords_matched ex,
        score := score ex,
        reason := reason ex,
        last_seen_at := last_seen_at ex \<rparr>"

text \<open>
  Lines 157-198: \<open>INSERT ... ON CONFLICT(source, handle) DO UPDATE\<close>.  The id column is
  \<open>AUTOINCREMENT\<close>: SQLite draws the next id before it meets the conflict, so the counter
  advances on the update path as well and that id is never given to a row.
\<close>

definition sql_upsert :: "lead \<Rightarrow> db \<Rightarrow> db" where
  "sql_upsert ex d =
     (if list_ex (conflicts ex) (leads d)
      then d\<lparr> leads := map (\<lambda>l. if conflicts ex l then merge_lead ex l else l) (leads d),
              rowid_seq := rowid_seq d + 1 \<rparr>
      else d\<lparr> leads := leads d @ [ex\<lparr> lead_id := rowid_seq d + 1 \<rparr>],
              rowid_seq := rowid_seq d + 1 \<rparr>)"

text \<open>Lines 141-146: the identity of a row; an empty handle skips the row.\<close>

definition row_source :: "string \<Rightarrow> string" where
  "row_source src = py_lower (py_strip (if src = [] then ''manual'' else src))"

definition row_handle :: "pydict \<Rightarrow> py_error + string" where
  "row_handle r2 =
     bind_err (strip_method (py_or (dget r2 ''handle'') (PStr '''')))
       (\<lambda>h. Inr (lstrip_by (\<lambda>c. c = CHR ''@'') h))"

text \<open>One turn of the loop of \<^verbatim>\<open>upsert_leads_from_rows\<close>: the store and what is added to \<open>n\<close>.\<close>

definition upsert_row ::
  "(string \<Rightarrow> int option) \<Rightarrow> int \<Rightarrow> string \<Rightarrow> bool \<Rightarrow> score_fn option \<Rightarrow> db \<Rightarrow> raw_row
     \<Rightarrow> py_error + (db \<times> nat)" where
  "upsert_row int_of_float now src compute_score_if_missing sf d r =
     bind_err (normalize_row r (row_source src)) (\<lambda>r2.
     bind_err (row_handle r2) (\<lambda>h.
       if h = [] then Inr (d, 0)
       else
         bind_err (text_param r2 ''profile_url'') (\<lambda>purl.
         bind_err (excluded_row int_of_float now (row_source src) h purl
                     (apply_score int_of_float compute_score_if_missing sf r2))
           (\<lambda>ex. Inr (sql_upsert ex d, 1)))))"

fun upsert_rows ::
  "(string \<Rightarrow> int option) \<Rightarrow> int \<Rightarrow> string \<Rightarrow> bool \<Rightarrow> score_fn option \<Rightarrow> db \<Rightarrow> raw_row list
     \<Rightarrow> nat \<Rightarrow> py_error + (db \<times> nat)" where
  "upsert_rows int_of_float now src c sf d [] n = Inr (d, n)"
| "upsert_rows int_of_float now src c sf d (r # rs) n =
     bind_err (upsert_row int_of_float now src c sf d r)
       (\<lambda>(d', k). upsert_rows int_of_float now src c sf d' rs (n + k))"

text \<open>
  \<^verbatim>\<open>upsert_leads_from_rows\<close>.  \<open>now\<close> is the clock reading taken at entry.  An exception
  leaves the loop before the commit.
\<close>

definition upsert_leads_from_rows ::
  "(string \<Rightarrow> int option) \<Rightarrow> int \<Rightarrow> db \<Rightarrow> raw_row list \<Rightarrow> string \<Rightarrow> bool \<Rightarrow> score_fn option
     \<Rightarrow> py_error + (db \<times> nat)" where
  "upsert_leads_from_rows int_of_float now d rs src compute_score_if_missing sf =
     upsert_rows int_of_float now src compute_score_if_missing sf d rs 0"

subsection \<open>The operator's update\<close>

text \<open>A decoded JSON request body; numbers are integers.\<close>

datatype json =
    JNull | JBool bool | JInt int | JStr string | JArr "json list" | JObj "(string \<times> json) list"

fun json_truthy :: "json \<Rightarrow> bool" where
  "json_truthy JNull = False"
| "json_truthy (JBool b) = b"
| "json_truthy (JInt n) = (n \<noteq> 0)"
| "json_truthy (JStr s) = (s \<noteq> [])"
| "json_truthy (JArr xs) = (xs \<noteq> [])"
| "json_truthy (JObj kvs) = (kvs \<noteq> [])"

text \<open>
  \<^verbatim>\<open>get_lead\<close>: the row and its decoded tags.  \<^verbatim>\<open>json.loads\<close> is the parameter \<open>loads\<close>,
  with \<open>None\<close> where it raises.  The id asked for is taken to be one SQLite can hold, an
  integer of 64 bits, as every stored id is; beyond that range sqlite3 raises OverflowError
  when it binds the id, here and in \<^verbatim>\<open>update_lead\<close>, and that case is left out.
\<close>

definition get_lead :: "(string \<Rightarrow> json option) \<Rightarrow> db \<Rightarrow> int \<Rightarrow> (lead \<times> json) option" where
  "get_lead loads d i =
     (case find (\<lambda>l. lead_id l = i) (leads d) of
        None \<Rightarrow> None
      | Some l \<Rightarrow>
          Some (l, case loads (if tags l = [] then ''[]'' else tags l) of
                     None \<Rightarrow> JArr [] | Some v \<Rightarrow> v))"

definition allowed :: "string list" where
  "allowed = [''status'', ''notes'', ''tags'']"

text \<open>
  Lines 263-273: the columns to set and their parameters, in the order of the patch.
  \<^verbatim>\<open>json.dumps\<close> is the parameter \<open>dumps\<close>.  A Python dict has each key once.
\<close>

definition assignments :: "(json \<Rightarrow> string) \<Rightarrow> (string \<times> json) list \<Rightarrow> (string \<times> json) list" where
  "assignments dumps patch =
     map (\<lambda>(k, v). if k = ''tags'' then (k, JStr (dumps (if json_truthy v then v else JArr [])))
                    else (k, v))
       (filter (\<lambda>(k, v). k \<in> set allowed) patch)"

text \<open>
  What sqlite3 makes of a bound value in a TEXT NOT NULL column: a list or an object has no
  adapter (ProgrammingError since Python 3.11), an integer is stored as its decimal text,
  NULL violates the constraint.
\<close>

datatype sqlval = SNull | SText string

fun bind_value :: "json \<Rightarrow> py_error + sqlval" where
  "bind_value JNull = Inr SNull"
| "bind_value (JBool b) = Inr (SText (if b then ''1'' else ''0''))"
| "bind_value (JInt n) =
     (if fits_int64 (Some n) then Inr (SText (str_int n)) else Inl OverflowError)"
| "bind_value (JStr s) = Inr (SText s)"
| "bind_value (JArr xs) = Inl ProgrammingError"
| "bind_value (JObj kvs) = Inl ProgrammingError"

fun bind_all :: "(string \<times> json) list \<Rightarrow> py_error + (string \<times> sqlval) list" where
  "bind_all [] = Inr []"
| "bind_all ((k, v) # kvs) =
     bind_err (bind_value v) (\<lambda>b. bind_err (bind_all kvs) (\<lambda>bs. Inr ((k, b) # bs)))"

definition set_column :: "string \<Rightarrow> sqlval \<Rightarrow> lead \<Rightarrow> lead" where
  "set_column k v l =
     (case v of
        SNull \<Rightarrow> l
      | SText t \<Rightarrow>
          (if k = ''status'' then l\<lparr> status := t \<rparr>
           else if k = ''notes'' then l\<lparr> notes := t \<rparr>
           else if k = ''tags'' then l\<lparr> tags := t \<rparr>
           else l))"

text \<open>Line 278: \<open>UPDATE leads SET ... WHERE id=?\<close>.\<close>

definition sql_update :: "(string \<times> sqlval) list \<Rightarrow> int \<Rightarrow> db \<Rightarrow> py_error + db" where
  "sql_update bs i d =
     (if list_ex (\<lambda>l. lead_id l = i) (leads d) \<and> list_ex (\<lambda>(k, v). v = SNull) bs
      then Inl IntegrityError
      else Inr (d\<lparr> leads := map (\<lambda>l. if lead_id l = i
                                        then fold (\<lambda>(k, v). set_column k v) bs l else l)
                               (leads d) \<rparr>))"

definition update_lead ::
  "(json \<Rightarrow> string) \<Rightarrow> (string \<Rightarrow> json option) \<Rightarrow> db \<Rightarrow> int \<Rightarrow> (string \<times> json) list
     \<Rightarrow> py_error + (db \<times> (lead \<times> json) option)" where
  "update_lead dumps loads d i patch =
     (let fields = assignments dumps patch in
      if fields = [] then Inr (d, get_lead loads d i)
      else bind_err (bind_all fields) (\<lambda>bs.
           bind_err (sql_update bs i d) (\<lambda>d'. Inr (d', get_lead loads d' i))))"

section \<open>Website audit (audit.py)\<close>

definition WEAK_LINK_HOSTS :: "string list" where
  "WEAK_LINK_HOSTS = [''linktr.ee'', ''carrd.co'', ''notion.site'', ''beacons.ai'', ''taplink.cc'',
                      ''stan.store'', ''gumroad.com'', ''calendly.com'']"

definition PARKED_PHRASES :: "string list" where
  "PARKED_PHRASES = [''domain parked'', ''this domain is parked'', ''buy this domain'',
                     ''this website is coming soon'', ''coming soon'', ''under construction'',
                     ''site is not configured'', ''account suspended'']"

text \<open>
  \<^verbatim>\<open>AuditConfig\<close>.  Its two timing fields, \<^verbatim>\<open>timeout_s\<close> and \<^verbatim>\<open>sleep_s\<close>, are floats that
  no result depends on; the model keeps the byte cap.
\<close>

record AuditConfig =
  max_bytes :: int

definition scheme_char :: "char \<Rightarrow> bool" where
  "scheme_char c = (ascii_letter c \<or> ascii_digit c \<or> c \<in> set ''+-.'')"

text \<open>\<^verbatim>\<open>re.match(r"^[a-zA-Z][a-zA-Z0-9+\-.]*://", url)\<close>\<close>

definition has_scheme :: "string \<Rightarrow> bool" where
  "has_scheme url =
     (case url of [] \<Rightarrow> False
      | c # cs \<Rightarrow> ascii_letter c \<and> prefix ''://'' (dropWhile scheme_char cs))"

definition normalize_url :: "string \<Rightarrow> string" where
  "normalize_url url0 =
     (let url = py_strip url0 in
      if url = [] then []
      else if \<not> has_scheme url then ''https://'' @ url
      else url)"

text \<open>
  \<^verbatim>\<open>urllib.parse.urlparse(url).netloc\<close>, after CPython's \<^verbatim>\<open>urlsplit\<close>: leading control
  characters and blanks are dropped, tabs and line breaks removed, a valid scheme before the
  first colon is split off, and after \<open>//\<close> the netloc runs up to the first of \<open>/ ? #\<close>.
  A netloc with one square bracket and not the other raises ValueError (here \<open>None\<close>).
  With both, the text between the first \<open>[\<close> and the \<open>]\<close> after it is checked: when it
  starts with \<open>v\<close> it has to match \<^verbatim>\<open>\Av[a-fA-F0-9]+\..+\Z\<close>, otherwise the library's
  \<^verbatim>\<open>ipaddress.ip_address\<close> has to read it as an IPv6 address.  That parser belongs to the
  standard library and is the parameter \<open>ipv6_ok\<close>.  The check of a netloc after NFKC
  normalization refuses no text of code points below 256.
\<close>

definition after_scheme :: "string \<Rightarrow> string" where
  "after_scheme url =
     (let pre = takeWhile (\<lambda>c. c \<noteq> CHR '':'') url in
      if length pre < length url \<and> pre \<noteq> [] \<and> ascii_letter (hd pre) \<and> list_all scheme_char pre
      then drop (length pre + 1) url
      else url)"

definition hex_digit :: "char \<Rightarrow> bool" where
  "hex_digit c = (c \<in> set ''0123456789abcdefABCDEF'')"

definition ipvfuture :: "string \<Rightarrow> bool" where
  "ipvfuture h =
     (case h of
        [] \<Rightarrow> False
      | c # cs \<Rightarrow>
          c = CHR ''v'' \<and> takeWhile hex_digit cs \<noteq> [] \<and>
          (case dropWhile hex_digit cs of
             [] \<Rightarrow> False
           | dot # rest \<Rightarrow> dot = CHR ''.'' \<and> rest \<noteq> [] \<and> CHR 0x0A \<notin> set rest))"

definition check_bracketed_host :: "(string \<Rightarrow> bool) \<Rightarrow> string \<Rightarrow> bool" where
  "check_bracketed_host ipv6_ok h = (if prefix ''v'' h then ipvfuture h else ipv6_ok h)"

definition urlsplit_netloc :: "(string \<Rightarrow> bool) \<Rightarrow> string \<Rightarrow> string option" where
  "urlsplit_netloc ipv6_ok url0 =
     (let url = filter (\<lambda>c. c \<notin> set [CHR 0x09, CHR 0x0D, CHR 0x0A])
                  (dropWhile (\<lambda>c. c \<in> set (map char_of [0 ..< 33 :: nat])) url0);
          rest = after_scheme url
      in if prefix ''//'' rest then
           (let netloc = takeWhile (\<lambda>c. c \<notin> set ''/?#'') (drop 2 rest);
                bracketed = takeWhile (\<lambda>c. c \<noteq> CHR '']'')
                              (drop 1 (dropWhile (\<lambda>c. c \<noteq> CHR ''['') netloc))
            in if (CHR ''['' \<in> set netloc) \<noteq> (CHR '']'' \<in> set netloc) then None
               else if CHR ''['' \<in> set netloc \<and> \<not> check_bracketed_host ipv6_ok bracketed then None
               else Some netloc)
         else Some [])"

text \<open>\<^verbatim>\<open>_host\<close>: any exception gives the empty host.\<close>

definition host :: "(string \<Rightarrow> bool) \<Rightarrow> string \<Rightarrow> string" where
  "host ipv6_ok url = (case urlsplit_netloc ipv6_ok url of None \<Rightarrow> [] | Some n \<Rightarrow> py_lower n)"

text \<open>Line 80.\<close>

definition is_weak_link_host :: "string \<Rightarrow> bool" where
  "is_weak_link_host h = list_ex (\<lambda>w. h = w \<or> suffix (''.'' @ w) h) WEAK_LINK_HOSTS"

text \<open>
  What the network answers to a request: an \<^verbatim>\<open>HTTPError\<close> with its code, another exception
  with the name of its type, or a response with its \<open>status\<close>, \<open>geturl()\<close>, content-type
  header (empty when absent) and body.
\<close>

datatype fetch_result =
    HTTPError int
  | OtherError string
  | Response "int option" string string string

record audit_result =
  website_score :: int
  website_verdict :: string
  website_findings :: string
  website_http_status :: "int option"
  website_final_url :: string
  website_checked_at :: int

text \<open>
  \<^verbatim>\<open>data.decode("utf-8", errors="replace")\<close> for a body whose text stays below code point 256:
  a byte below 128 stands for itself, and the two-byte forms \<open>C2 xx\<close> and \<open>C3 xx\<close>
  (\<open>xx\<close> from 80 to BF) give the code points 128 to 191 and 192 to 255.  Every other
  sequence decodes to a code point from 256 on or to the replacement character U+FFFD: such
  text has no counterpart here and the result is \<open>None\<close>.
\<close>

fun decode_utf8 :: "string \<Rightarrow> string option" where
  "decode_utf8 [] = Some []"
| "decode_utf8 [b] = (if digit7 b then None else Some [b])"
| "decode_utf8 (b # c # cs) =
     (if \<not> digit7 b then map_option ((#) b) (decode_utf8 (c # cs))
      else if (b = CHR 0xC2 \<or> b = CHR 0xC3) \<and> digit7 c \<and> \<not> digit6 c then
        map_option
          ((#) (if b = CHR 0xC2 then c
                else Char (digit0 c) (digit1 c) (digit2 c) (digit3 c) (digit4 c) (digit5 c)
                       True True))
          (decode_utf8 cs)
      else None)"

text \<open>\<^verbatim>\<open>resp.read(n)\<close> and the slice \<^verbatim>\<open>data[:n]\<close>.\<close>

definition read_bytes :: "int \<Rightarrow> string \<Rightarrow> string" where
  "read_bytes n body = (if n < 0 then body else take (nat n) body)"

definition slice_to :: "int \<Rightarrow> 'a list \<Rightarrow> 'a list" where
  "slice_to n xs = (if n < 0 then take (length xs - nat (- n)) xs else take (nat n) xs)"

text \<open>A regular expression search: some suffix of the text starts with a match.\<close>

fun search_at :: "(string \<Rightarrow> bool) \<Rightarrow> string \<Rightarrow> bool" where
  "search_at P [] = P []"
| "search_at P (c # cs) = (P (c # cs) \<or> search_at P cs)"

fun count_at :: "(string \<Rightarrow> bool) \<Rightarrow> string \<Rightarrow> nat" where
  "count_at P [] = (if P [] then 1 else 0)"
| "count_at P (c # cs) = (if P (c # cs) then 1 else 0) + count_at P cs"

text \<open>
  \<^verbatim>\<open><title>\s*[^<]{3,}</title>\<close>: between the tags stands the whole run of characters
  other than \<open><\<close>, at least three of them (a blank is such a character).
\<close>

definition title_here :: "string \<Rightarrow> bool" where
  "title_here s =
     (prefix ''<title>'' s \<and>
      (let rest = drop 7 s in
       3 \<le> length (takeWhile (\<lambda>c. c \<noteq> CHR ''<'') rest) \<and>
       prefix ''</title>'' (dropWhile (\<lambda>c. c \<noteq> CHR ''<'') rest)))"

text \<open>\<^verbatim>\<open><h1[^>]*>\s*[^<]{2,}\<close>\<close>

definition h1_here :: "string \<Rightarrow> bool" where
  "h1_here s =
     (prefix ''<h1'' s \<and>
      (case dropWhile (\<lambda>c. c \<noteq> CHR ''>'') (drop 3 s) of
         [] \<Rightarrow> False
       | gt # content \<Rightarrow> 2 \<le> length (takeWhile (\<lambda>c. c \<noteq> CHR ''<'') content)))"

text \<open>
  \<^verbatim>\<open><script\b\<close>: the tag name ends there.  For a \<^verbatim>\<open>str\<close> pattern a word character is an
  underscore or what \<^verbatim>\<open>str.isalnum\<close> accepts; from 128 to 255 these are the two ordinal
  indicators, the micro sign, the superscript digits, the three fractions and the letters
  from 192 on (all but the multiplication and the division sign).
\<close>

definition word_char :: "char \<Rightarrow> bool" where
  "word_char c =
     (ascii_letter c \<or> ascii_digit c \<or> c = CHR ''_''
      \<or> c \<in> set [CHR 0xAA, CHR 0xB2, CHR 0xB3, CHR 0xB5, CHR 0xB9, CHR 0xBA,
                   CHR 0xBC, CHR 0xBD, CHR 0xBE]
      \<or> (digit7 c \<and> digit6 c \<and> c \<noteq> CHR 0xD7 \<and> c \<noteq> CHR 0xF7))"

definition script_here :: "string \<Rightarrow> bool" where
  "script_here s =
     (prefix ''<script'' s \<and> (case drop 7 s of [] \<Rightarrow> True | c # cs \<Rightarrow> \<not> word_char c))"

definition booking_kw :: "string list" where
  "booking_kw = [''book'', ''booking'', ''quote'', ''estimate'', ''call'', ''whatsapp'',
                 ''appointment'', ''schedule'']"

definition trust_kw :: "string list" where
  "trust_kw = [''review'', ''reviews'', ''testimonial'', ''testimonials'', ''before and after'',
               ''before & after'', ''rated'']"

text \<open>The signals read from the lower-cased page, lines 154-209.\<close>

definition has_viewport :: "string \<Rightarrow> bool" where
  "has_viewport html_l =
     (py_in ''name=\"viewport\"'' html_l \<or> py_in (''name='' @ [CHR 0x27] @ ''viewport'' @ [CHR 0x27]) html_l)"

definition has_title :: "string \<Rightarrow> bool" where
  "has_title html_l = search_at title_here html_l"

definition has_meta_desc :: "string \<Rightarrow> bool" where
  "has_meta_desc html_l =
     (py_in ''name=\"description\"'' html_l
      \<or> py_in (''name='' @ [CHR 0x27] @ ''description'' @ [CHR 0x27]) html_l)"

definition has_h1 :: "string \<Rightarrow> bool" where
  "has_h1 html_l = search_at h1_here html_l"

definition has_tel :: "string \<Rightarrow> bool" where
  "has_tel html_l =
     (py_in ''href=\"tel:'' html_l \<or> py_in (''href='' @ [CHR 0x27] @ ''tel:'') html_l)"

definition has_mail :: "string \<Rightarrow> bool" where
  "has_mail html_l =
     (py_in ''href=\"mailto:'' html_l \<or> py_in (''href='' @ [CHR 0x27] @ ''mailto:'') html_l)"

definition has_whatsapp :: "string \<Rightarrow> bool" where
  "has_whatsapp html_l =
     (py_in ''wa.me/'' html_l \<or> py_in ''api.whatsapp.com'' html_l \<or> py_in ''whatsapp'' html_l)"

definition has_cta :: "string \<Rightarrow> bool" where
  "has_cta html_l = list_ex (\<lambda>k. py_in k html_l) booking_kw"

definition has_trust :: "string \<Rightarrow> bool" where
  "has_trust html_l = list_ex (\<lambda>k. py_in k html_l) trust_kw"

definition scripts :: "string \<Rightarrow> nat" where
  "scripts html_l = count_at script_here html_l"

definition is_parked :: "string \<Rightarrow> bool" where
  "is_parked html_l = list_ex (\<lambda>p. py_in p html_l) PARKED_PHRASES"

text \<open>Lines 139-219: the score before the clamp and the findings in the order they are appended.\<close>

definition site_points :: "string \<Rightarrow> bool \<Rightarrow> int" where
  "site_points html_l truncated =
     50
     + (if has_viewport html_l then 10 else - 10)
     + (if has_title html_l then 5 else - 6)
     + (if has_meta_desc html_l then 5 else 0)
     + (if has_h1 html_l then 5 else 0)
     + (if has_whatsapp html_l then 10 else 0)
     + (if has_tel html_l then 8 else 0)
     + (if has_mail html_l then 4 else 0)
     + (if has_cta html_l then 6 else - 6)
     + (if has_trust html_l then 6 else 0)
     + (if 35 \<le> scripts html_l then - 8 else if 20 \<le> scripts html_l then - 4 else 0)
     + (if truncated then - 6 else 0)"

definition site_findings :: "string \<Rightarrow> bool \<Rightarrow> string list" where
  "site_findings html_l truncated =
     [if has_viewport html_l then ''Has mobile viewport meta.''
      else ''Missing mobile viewport meta (mobile UX risk).'']
     @ (if has_title html_l then [] else [''Missing/empty <title>.''])
     @ (if has_meta_desc html_l then [] else [''Missing meta description (SEO baseline).''])
     @ (if has_h1 html_l then [] else [''Missing/weak H1 (clarity).''])
     @ (if has_whatsapp html_l then [''Has WhatsApp contact.''] else [])
     @ (if has_tel html_l then [''Has phone link.''] else [])
     @ (if has_cta html_l then [] else [''No obvious booking/quote CTA language.''])
     @ [if has_trust html_l then ''Has trust signals (reviews/testimonials).''
        else ''Weak trust signals (no clear reviews/testimonials found).'']
     @ (if 35 \<le> scripts html_l
        then [''Very script-heavy ('' @ str_int (int (scripts html_l)) @ '' scripts).'']
        else if 20 \<le> scripts html_l
        then [''Somewhat script-heavy ('' @ str_int (int (scripts html_l)) @ '' scripts).'']
        else [])
     @ (if truncated then [''HTML is large/truncated (page weight risk).''] else [])"

text \<open>Lines 221-227.\<close>

definition verdict_of :: "int \<Rightarrow> string" where
  "verdict_of sc = (if sc \<le> 35 then ''weak_site'' else if sc \<le> 65 then ''basic_site''
                    else ''good_site'')"

text \<open>Lines 134-241: the page that was fetched as HTML.\<close>

definition audit_text ::
  "int option \<Rightarrow> string \<Rightarrow> int \<Rightarrow> bool \<Rightarrow> string \<Rightarrow> audit_result" where
  "audit_text st final_url checked_at truncated html =
     (let html_l = py_lower html
      in if is_parked html_l then
           \<lparr> website_score = 10, website_verdict = ''parked_or_placeholder'',
             website_findings = join ''; '' [''Looks parked/placeholder/coming-soon.''],
             website_http_status = st, website_final_url = final_url,
             website_checked_at = checked_at \<rparr>
         else
           (let sc = max 0 (min 100 (site_points html_l truncated));
                verdict = verdict_of sc;
                findings = take 8 (site_findings html_l truncated);
                findings = (if (verdict = ''weak_site'' \<or> verdict = ''basic_site'')
                               \<and> \<not> (has_tel html_l \<or> has_whatsapp html_l \<or> has_mail html_l)
                            then ''No obvious contact links (phone/WhatsApp/email).'' # findings
                            else findings)
            in \<lparr> website_score = sc, website_verdict = verdict,
                 website_findings = join ''; '' findings,
                 website_http_status = st, website_final_url = final_url,
                 website_checked_at = checked_at \<rparr>))"

definition audit_html ::
  "int option \<Rightarrow> string \<Rightarrow> int \<Rightarrow> string \<Rightarrow> AuditConfig \<Rightarrow> audit_result option" where
  "audit_html st final_url checked_at data cfg =
     (let truncated = (int (length data) > max_bytes cfg)
      in map_option (audit_text st final_url checked_at truncated)
           (decode_utf8 (slice_to (max_bytes cfg) data)))"

text \<open>
  \<^verbatim>\<open>audit_website\<close>.  \<open>fetch\<close> is the network and \<open>checked_at\<close> the clock reading; beside the
  result stands the list of the URLs that were requested.  The result is \<open>None\<close> only where
  the page decodes to text outside this theory.
\<close>

definition audit_website ::
  "(string \<Rightarrow> bool) \<Rightarrow> (string \<Rightarrow> fetch_result) \<Rightarrow> int \<Rightarrow> string \<Rightarrow> AuditConfig
     \<Rightarrow> (audit_result \<times> string list) option" where
  "audit_website ipv6_ok fetch checked_at url cfg =
     (let raw = py_strip url in
      if raw = [] then
        Some (\<lparr> website_score = 0, website_verdict = ''no_website'',
                website_findings = ''No website listed.'', website_http_status = None,
                website_final_url = [], website_checked_at = checked_at \<rparr>, [])
      else
        (let norm = normalize_url raw in
         if is_weak_link_host (host ipv6_ok norm) then
           Some (\<lparr> website_score = 20, website_verdict = ''weak_link_in_bio'',
                   website_findings =
                     ''Link-in-bio page (Linktree/Carrd/Notion/etc). Strong upgrade opportunity.'',
                   website_http_status = None, website_final_url = norm,
                   website_checked_at = checked_at \<rparr>, [])
         else
           (case fetch norm of
              HTTPError code \<Rightarrow>
                Some (\<lparr> website_score = 5, website_verdict = ''unreachable'',
                        website_findings = ''HTTP error '' @ str_int code @ ''.'',
                        website_http_status = Some code, website_final_url = norm,
                        website_checked_at = checked_at \<rparr>, [norm])
            | OtherError ename \<Rightarrow>
                Some (\<lparr> website_score = 5, website_verdict = ''unreachable'',
                        website_findings = ''Could not fetch site ('' @ ename @ '').'',
                        website_http_status = None, website_final_url = norm,
                        website_checked_at = checked_at \<rparr>, [norm])
            | Response st0 geturl ctype0 body \<Rightarrow>
                (let st = (case st0 of None \<Rightarrow> None | Some n \<Rightarrow> if n = 0 then None else Some n);
                     final_url = (if geturl = [] then norm else geturl);
                     ctype = py_lower ctype0;
                     data = read_bytes (max_bytes cfg + 1) body
                 in if \<not> py_in ''text/html'' ctype \<and> \<not> py_in ''application/xhtml'' ctype then
                      Some (\<lparr> website_score = 45, website_verdict = ''basic_site'',
                              website_findings =
                                join ''; '' [''Non-HTML content-type: ''
                                              @ (if ctype = [] then ''unknown'' else ctype)],
                              website_http_status = st, website_final_url = final_url,
                              website_checked_at = checked_at \<rparr>, [norm])
                    else map_option (\<lambda>res. (res, [norm]))
                           (audit_html st final_url checked_at data cfg)))))"
section \<open>Notions used in the statements\<close>

text \<open>The keys \<^verbatim>\<open>score_row\<close> reads from its row.\<close>

definition score_fields :: "string list" where
  "score_fields = [''name'', ''bio'', ''location'', ''website'', ''phone'', ''recent_post_snippet'',
                   ''signal_keywords_matched'', ''profile_url'']"


text \<open>
  What identifies a stored lead for the operator and what the operator owns; a lead with the
  operator's fields blanked; the first row with a given id.
\<close>

definition operator_fields :: "lead \<Rightarrow> int \<times> string \<times> string \<times> string" where
  "operator_fields l = (lead_id l, status l, notes l, tags l)"

definition non_operator :: "lead \<Rightarrow> lead" where
  "non_operator l = l\<lparr> status := [], notes := [], tags := [] \<rparr>"

definition by_id :: "int \<Rightarrow> db \<Rightarrow> lead option" where
  "by_id i d = find (\<lambda>l. lead_id l = i) (leads d)"

text \<open>A stored lead and a store holding it, for the examples.\<close>

definition sample_lead :: lead where
  "sample_lead =
     \<lparr> lead_id = 1, source = ''instagram'', handle = ''acme.plumb'',
       profile_url = Some ''https://instagram.com/acme.plumb'',
       name = Some ''Acme'', bio = Some ''Plumber'', followers = Some 120,
       location = Some ''Leeds'', website = Some ''https://acme.example'',
       phone = Some ''555 0100'', email = Some ''joe@acme.example'',
       recent_post_snippet = Some [], signal_keywords_matched = Some [],
       score = Some 64, reason = Some ''svc:plumber'',
       lead_website_score = None, lead_website_verdict = None,
       lead_website_findings = None, lead_website_checked_at = None,
       lead_website_final_url = None, lead_website_http_status = None,
       status = ''contacted'', notes = ''call back on Monday'', tags = ''[]'',
       last_seen_at = 100, created_at = 100 \<rparr>"

definition sample_db :: db where
  "sample_db = \<lparr> leads = [sample_lead], rowid_seq = 1 \<rparr>"

text \<open>
  The rows with the identity \<open>(source, handle)\<close>, and the merge rule for the enrichable
  columns as the specification words it.
\<close>

definition same_identity :: "string \<Rightarrow> string \<Rightarrow> lead \<Rightarrow> bool" where
  "same_identity s h l = (source l = s \<and> handle l = h)"

definition keep_if_new_nonempty :: "string \<Rightarrow> string option \<Rightarrow> string option" where
  "keep_if_new_nonempty incoming stored = (if incoming = [] then stored else Some incoming)"

text \<open>A CSV row that names the stored lead and brings a blank website and a new phone.\<close>

definition sample_row :: raw_row where
  "sample_row = [(''Username'', PStr ''@acme.plumb''), (''website'', PStr ''  ''),
                 (''Phone'', PStr '' 555 0199 '')]"







text \<open>A page with the viewport name unquoted, which HTML allows.\<close>

definition unquoted_page :: string where
  "unquoted_page = ''<meta name=viewport><title>Acme Plumbing</title><a href=\"tel:5551234\">free quote</a>''"


text \<open>A network that is down, and an address parser that accepts nothing.\<close>

definition no_network :: "string \<Rightarrow> fetch_result" where
  "no_network u = OtherError ''URLError''"

definition no_ipv6 :: "string \<Rightarrow> bool" where
  "no_ipv6 h = False"

text \<open>
  The social domain found in a profile URL (Instagram is looked for first), and the first
  path segment after a marker as the specification words it: of the text after the marker,
  what stands before the query string, without leading slashes, up to the next slash.
\<close>

definition social_marker :: "string \<Rightarrow> string" where
  "social_marker p = (if py_in ''instagram.com/'' p then ''instagram.com/'' else ''facebook.com/'')"

definition first_path_segment :: "string \<Rightarrow> string \<Rightarrow> string" where
  "first_path_segment marker url =
     (case split1_after marker url of
        None \<Rightarrow> []
      | Some rest \<Rightarrow>
          takeWhile (\<lambda>c. c \<noteq> CHR ''/'')
            (dropWhile (\<lambda>c. c = CHR ''/'') (takeWhile (\<lambda>c. c \<noteq> CHR ''?'') rest)))"

text \<open>
  The keys whose values the normalizer strips, a value that is a string or counts as false,
  and the first true value under a list of keys (the empty string when there is none).
\<close>

definition text_keys :: "string list" where
  "text_keys = [''handle'', ''username'', ''user'', ''page'', ''profile_url'', ''profile'',
                ''profilelink'', ''profile_link'', ''url'', ''name'']"

fun str_or_falsy :: "pyval \<Rightarrow> bool" where
  "str_or_falsy (PStr s) = True"
| "str_or_falsy v = (\<not> truthy v)"

definition or_chain :: "pydict \<Rightarrow> string list \<Rightarrow> pyval" where
  "or_chain d ks = foldr (\<lambda>k rest. py_or (dget d k) rest) ks (PStr '''')"







section \<open>Scoring: repeatability and range\<close>

lemma rule_owner_order:
  assumes "set order = set order'"
  shows "rule_owner order text_l toks = rule_owner order' text_l toks"
proof -
  have "list_ex (\<lambda>t. py_in t text_l) order = list_ex (\<lambda>t. py_in t text_l) order'"
    using assms by (simp add: list_ex_iff)
  then show ?thesis by (simp add: rule_owner_def)
qed

lemma fired_cong:
  assumes "set order = set order'"
    and "\<forall>k \<in> set score_fields. r k = r' k"
  shows "fired order r = fired order' r'"
proof -
  have f: "field_str r k = field_str r' k" if "k \<in> set score_fields" for k
    using assms(2) that by (simp add: field_str_def dget_def)
  have t: "row_text r = row_text r'"
    unfolding row_text_def using f by (simp add: score_fields_def)
  show ?thesis
    unfolding fired_def t rule_owner_order [OF assms(1)] using f by (simp add: score_fields_def)
qed

text \<open>
  Claim C4.  Two calls of \<^verbatim>\<open>score_row\<close> give the same score and the same reasons whenever the
  rows agree on the eight fields the function reads, whatever else the rows hold and in
  whatever order each of the two processes enumerates the set \<^verbatim>\<open>owner_tokens\<close>, the one
  thing in the function that varies from run to run.  The score is an integer between 0
  and 100.
\<close>

theorem score_row_pure_in_range:
  assumes "set order = set owner_tokens"
    and "set order' = set owner_tokens"
    and "\<forall>k \<in> set score_fields. r k = r' k"
  shows "score_row order r = score_row order' r'
         \<and> 0 \<le> fst (score_row order r) \<and> fst (score_row order r) \<le> 100"
proof -
  have "set order = set order'" using assms(1,2) by simp
  from fired_cong [OF this assms(3)] show ?thesis
    by (simp add: score_row_def raw_score_def)
qed

theorem score_row_pure_in_range_witness:
  "score_row owner_tokens (map_of [(''bio'', PStr ''Plumber, owner''), (''id'', PInt 7)])
     = score_row (rev owner_tokens) (map_of [(''bio'', PStr ''Plumber, owner'')])
   \<and> 0 \<le> fst (score_row owner_tokens (map_of [(''bio'', PStr ''Plumber, owner''), (''id'', PInt 7)]))
   \<and> fst (score_row owner_tokens (map_of [(''bio'', PStr ''Plumber, owner''), (''id'', PInt 7)]))
       \<le> 100"
  by (rule score_row_pure_in_range) (simp_all add: score_fields_def)
section \<open>Website audit: link-in-bio hosts\<close>







text \<open>
  A host in square brackets that is no address makes \<^verbatim>\<open>urlparse\<close> raise: the host counts as
  empty and the URL is requested.
\<close>

lemma bracketed_host_requested:
  "host no_ipv6 ''https://[x].linktr.ee/'' = []
   \<and> (case audit_website no_ipv6 no_network 1700 ''https://[x].linktr.ee/'' \<lparr> max_bytes = 200 \<rparr> of
         None \<Rightarrow> False
       | Some (res, requested) \<Rightarrow>
           website_verdict res = ''unreachable'' \<and> requested = [''https://[x].linktr.ee/''])"
  by code_simp



section \<open>Lead store: what ingestion and the operator's update leave alone\<close>

lemma bind_err_Inr:
  "bind_err m f = Inr y \<longleftrightarrow> (\<exists>x. m = Inr x \<and> f x = Inr y)"
  by (cases m) (simp_all add: bind_err_def)

lemma operator_fields_merge: "operator_fields (merge_lead ex l) = operator_fields l"
  by (simp add: operator_fields_def merge_lead_def)

lemma sql_upsert_operator:
  "prefix (map operator_fields (leads d)) (map operator_fields (leads (sql_upsert ex d)))"
proof (cases "list_ex (conflicts ex) (leads d)")
  case True
  have "map operator_fields (map (\<lambda>l. if conflicts ex l then merge_lead ex l else l) xs)
          = map operator_fields xs" for xs
    by (induction xs) (simp_all add: operator_fields_merge)
  then show ?thesis using True by (simp add: sql_upsert_def del: map_map)
next
  case False
  then show ?thesis by (simp add: sql_upsert_def)
qed

lemma upsert_row_operator:
  assumes "upsert_row pf now src c sf d r = Inr (d', k)"
  shows "prefix (map operator_fields (leads d)) (map operator_fields (leads d'))"
  using assms sql_upsert_operator
  by (auto simp: upsert_row_def bind_err_Inr split: if_splits)

lemma upsert_rows_operator:
  "upsert_rows pf now src c sf d rs n = Inr (d', m)
     \<Longrightarrow> prefix (map operator_fields (leads d)) (map operator_fields (leads d'))"
proof (induction rs arbitrary: d n)
  case Nil
  then show ?case by simp
next
  case (Cons r rs)
  from Cons.prems obtain d1 k where
    1: "upsert_row pf now src c sf d r = Inr (d1, k)" and
    2: "upsert_rows pf now src c sf d1 rs (n + k) = Inr (d', m)"
    by (auto simp: bind_err_Inr)
  from upsert_row_operator [OF 1] Cons.IH [OF 2] show ?case
    by (rule prefix_order.trans)
qed

lemma non_operator_set_column: "non_operator (set_column k v l) = non_operator l"
  by (cases v) (simp_all add: set_column_def non_operator_def)

lemma non_operator_fold:
  "non_operator (fold (\<lambda>(k, v). set_column k v) bs l) = non_operator l"
  by (induction bs arbitrary: l) (auto simp: non_operator_set_column)

lemma lead_id_set_column: "lead_id (set_column k v l) = lead_id l"
  by (cases v) (simp_all add: set_column_def)

lemma lead_id_fold: "lead_id (fold (\<lambda>(k, v). set_column k v) bs l) = lead_id l"
  by (induction bs arbitrary: l) (auto simp: lead_id_set_column)

lemma sql_update_frame:
  assumes "sql_update bs i d = Inr d'"
  shows "map non_operator (leads d') = map non_operator (leads d)
         \<and> map lead_id (leads d') = map lead_id (leads d)
         \<and> rowid_seq d' = rowid_seq d
         \<and> filter (\<lambda>l. lead_id l \<noteq> i) (leads d') = filter (\<lambda>l. lead_id l \<noteq> i) (leads d)"
proof -
  let ?f = "\<lambda>l. if lead_id l = i then fold (\<lambda>(k, v). set_column k v) bs l else l"
  have d': "d' = d\<lparr> leads := map ?f (leads d) \<rparr>"
    using assms by (auto simp: sql_update_def split: if_splits)
  have "map non_operator (map ?f xs) = map non_operator xs" for xs
    by (induction xs) (simp_all add: non_operator_fold)
  moreover have "map lead_id (map ?f xs) = map lead_id xs" for xs
    by (induction xs) (simp_all add: lead_id_fold)
  moreover have "filter (\<lambda>l. lead_id l \<noteq> i) (map ?f xs) = filter (\<lambda>l. lead_id l \<noteq> i) xs" for xs
    by (induction xs) (simp_all add: lead_id_fold)
  ultimately show ?thesis by (simp add: d')
qed

lemma update_lead_frame:
  assumes "update_lead dumps loads d i patch = Inr (d', res)"
  shows "map non_operator (leads d') = map non_operator (leads d)
         \<and> map lead_id (leads d') = map lead_id (leads d)
         \<and> rowid_seq d' = rowid_seq d
         \<and> filter (\<lambda>l. lead_id l \<noteq> i) (leads d') = filter (\<lambda>l. lead_id l \<noteq> i) (leads d)"
proof (cases "assignments dumps patch = []")
  case True
  then show ?thesis using assms by (simp add: update_lead_def)
next
  case False
  then obtain bs where "sql_update bs i d = Inr d'"
    using assms by (auto simp: update_lead_def bind_err_Inr)
  then show ?thesis by (rule sql_update_frame)
qed

lemma find_prefix_operator:
  assumes "prefix (map operator_fields xs) (map operator_fields ys)"
    and "find (\<lambda>l. lead_id l = i) xs = Some l"
  shows "\<exists>l'. find (\<lambda>l. lead_id l = i) ys = Some l' \<and> operator_fields l' = operator_fields l"
  using assms
proof (induction xs arbitrary: ys)
  case Nil
  then show ?case by simp
next
  case (Cons x xs)
  then obtain y ys' where ys: "ys = y # ys'" and xy: "operator_fields y = operator_fields x"
    and p: "prefix (map operator_fields xs) (map operator_fields ys')"
    by (cases ys) auto
  have id: "lead_id y = lead_id x" using xy by (simp add: operator_fields_def)
  show ?case
  proof (cases "lead_id x = i")
    case True
    then show ?thesis using Cons.prems(2) ys xy id by simp
  next
    case False
    then have "find (\<lambda>l. lead_id l = i) xs = Some l" using Cons.prems(2) by simp
    from Cons.IH [OF p this] show ?thesis using False ys id by simp
  qed
qed

section \<open>Lead store: the enrichable columns\<close>

lemma text_param_apply_score:
  assumes "k \<noteq> ''score''" "k \<noteq> ''reason''"
  shows "text_param (apply_score pf c sf r2) k = text_param r2 k"
  using assms
  by (auto simp: apply_score_def text_param_def dget_def split: option.splits prod.splits)

lemma excluded_row_fields:
  assumes "excluded_row pf now s h purl r2 = Inr ex"
  shows "source ex = s \<and> handle ex = h
         \<and> profile_url ex = (if purl = [] then None else Some purl)
         \<and> (\<exists>w. text_param r2 ''website'' = Inr w \<and> website ex = Some w)
         \<and> (\<exists>p. text_param r2 ''phone'' = Inr p \<and> phone ex = Some p)
         \<and> (\<exists>e. text_param r2 ''email'' = Inr e \<and> email ex = Some e)"
  using assms
  by (auto simp: excluded_row_def bind_err_Inr Let_def split: if_splits)

lemma find_merge:
  assumes "find (same_identity (source ex) (handle ex)) xs = Some l"
  shows "find (same_identity (source ex) (handle ex))
           (map (\<lambda>l. if conflicts ex l then merge_lead ex l else l) xs) = Some (merge_lead ex l)"
  using assms
  by (induction xs) (auto simp: same_identity_def conflicts_def merge_lead_def split: if_splits)

lemma find_list_ex: "find P xs = Some x \<Longrightarrow> list_ex P xs"
  by (induction xs) (auto split: if_splits)

lemma sql_upsert_conflict:
  assumes "find (same_identity (source ex) (handle ex)) (leads d) = Some l"
  shows "find (same_identity (source ex) (handle ex)) (leads (sql_upsert ex d))
           = Some (merge_lead ex l)"
proof -
  have "conflicts ex = same_identity (source ex) (handle ex)"
    by (rule ext) (simp add: conflicts_def same_identity_def)
  with find_list_ex [OF assms] have "list_ex (conflicts ex) (leads d)" by simp
  then show ?thesis using find_merge [OF assms] by (simp add: sql_upsert_def)
qed

lemma merge_lead_enrichable:
  "website (merge_lead ex l) = coalesce (nullif (website ex) []) (website l)
   \<and> phone (merge_lead ex l) = coalesce (nullif (phone ex) []) (phone l)
   \<and> email (merge_lead ex l) = coalesce (nullif (email ex) []) (email l)
   \<and> profile_url (merge_lead ex l) = coalesce (nullif (profile_url ex) []) (profile_url l)
   \<and> lead_id (merge_lead ex l) = lead_id l \<and> created_at (merge_lead ex l) = created_at l"
  by (simp add: merge_lead_def)

text \<open>
  Claim C1.  A row is merged into a lead stored under its identity \<open>(source, handle)\<close>.
  The incoming website is the value bound to the statement, that is the row's website with
  surrounding blanks stripped; when it is empty the stored website stays as it is, otherwise
  it replaces the stored one.  The same holds for phone, email and profile_url.
\<close>

theorem merge_keeps_unless_new_nonempty:
  assumes norm: "normalize_row r (row_source src) = Inr r2"
    and ident: "row_handle r2 = Inr h" "h \<noteq> []"
    and stored: "find (same_identity (row_source src) h) (leads d) = Some l"
    and incoming: "text_param r2 ''website'' = Inr w" "text_param r2 ''phone'' = Inr ph"
      "text_param r2 ''email'' = Inr em" "text_param r2 ''profile_url'' = Inr pu"
    and merged: "upsert_row pf now src c sf d r = Inr (d', k)"
  shows "\<exists>l'. find (same_identity (row_source src) h) (leads d') = Some l'
           \<and> lead_id l' = lead_id l
           \<and> website l' = keep_if_new_nonempty w (website l)
           \<and> phone l' = keep_if_new_nonempty ph (phone l)
           \<and> email l' = keep_if_new_nonempty em (email l)
           \<and> profile_url l' = keep_if_new_nonempty pu (profile_url l)"
proof -
  from merged norm ident incoming(4) obtain ex where
    ex: "excluded_row pf now (row_source src) h pu (apply_score pf c sf r2) = Inr ex"
    and d': "d' = sql_upsert ex d"
    by (auto simp: upsert_row_def bind_err_Inr)
  from excluded_row_fields [OF ex] incoming
  have f: "source ex = row_source src" "handle ex = h"
    "profile_url ex = (if pu = [] then None else Some pu)"
    "website ex = Some w" "phone ex = Some ph" "email ex = Some em"
    by (auto simp: text_param_apply_score)
  from stored f have "find (same_identity (source ex) (handle ex)) (leads d) = Some l" by simp
  from sql_upsert_conflict [OF this]
  have "find (same_identity (row_source src) h) (leads d') = Some (merge_lead ex l)"
    using f d' by simp
  moreover have "website (merge_lead ex l) = keep_if_new_nonempty w (website l)"
    "phone (merge_lead ex l) = keep_if_new_nonempty ph (phone l)"
    "email (merge_lead ex l) = keep_if_new_nonempty em (email l)"
    "profile_url (merge_lead ex l) = keep_if_new_nonempty pu (profile_url l)"
    "lead_id (merge_lead ex l) = lead_id l"
    using f by (simp_all add: merge_lead_enrichable keep_if_new_nonempty_def nullif_def coalesce_def)
  ultimately show ?thesis by simp
qed

theorem merge_keeps_unless_new_nonempty_witness:
  "\<exists>r2 d' l'.
      normalize_row sample_row (row_source ''Instagram'') = Inr r2
      \<and> row_handle r2 = Inr ''acme.plumb''
      \<and> find (same_identity (row_source ''Instagram'') ''acme.plumb'') (leads sample_db)
          = Some sample_lead
      \<and> text_param r2 ''website'' = Inr [] \<and> text_param r2 ''phone'' = Inr ''555 0199''
      \<and> upsert_row (\<lambda>s. None) 200 ''Instagram'' False None sample_db sample_row = Inr (d', 1)
      \<and> find (same_identity (row_source ''Instagram'') ''acme.plumb'') (leads d') = Some l'
      \<and> website l' = Some ''https://acme.example'' \<and> phone l' = Some ''555 0199''"
proof -
  have "case normalize_row sample_row (row_source ''Instagram'') of
          Inl e \<Rightarrow> False
        | Inr r2 \<Rightarrow> row_handle r2 = Inr ''acme.plumb''
            \<and> text_param r2 ''website'' = Inr [] \<and> text_param r2 ''phone'' = Inr ''555 0199''
            \<and> text_param r2 ''email'' = Inr [] \<and> text_param r2 ''profile_url'' = Inr []"
    by code_simp
  then obtain r2 where n: "normalize_row sample_row (row_source ''Instagram'') = Inr r2"
    and h: "row_handle r2 = Inr ''acme.plumb''"
    and i: "text_param r2 ''website'' = Inr []" "text_param r2 ''phone'' = Inr ''555 0199''"
      "text_param r2 ''email'' = Inr []" "text_param r2 ''profile_url'' = Inr []"
    by (cases "normalize_row sample_row (row_source ''Instagram'')") auto
  have s: "find (same_identity (row_source ''Instagram'') ''acme.plumb'') (leads sample_db)
             = Some sample_lead"
    by code_simp
  have "case upsert_row (\<lambda>s. None) 200 ''Instagram'' False None sample_db sample_row of
          Inl e \<Rightarrow> False | Inr (d', k) \<Rightarrow> k = 1"
    by code_simp
  then obtain d' where
    u: "upsert_row (\<lambda>s. None) 200 ''Instagram'' False None sample_db sample_row = Inr (d', 1)"
    by (cases "upsert_row (\<lambda>s. None) 200 ''Instagram'' False None sample_db sample_row") auto
  have ne: "''acme.plumb'' \<noteq> []" by simp
  from merge_keeps_unless_new_nonempty [OF n h ne s i u]
  obtain l' where
    "find (same_identity (row_source ''Instagram'') ''acme.plumb'') (leads d') = Some l'"
    "website l' = Some ''https://acme.example''" "phone l' = Some ''555 0199''"
    by (auto simp: keep_if_new_nonempty_def sample_lead_def)
  with n h s i u show ?thesis by blast
qed

lemma find_map_by_id:
  assumes "\<And>l. lead_id (f l) = lead_id l"
  shows "find (\<lambda>l. lead_id l = i) (map (\<lambda>l. if lead_id l = i then f l else l) xs)
           = map_option f (find (\<lambda>l. lead_id l = i) xs)"
  by (induction xs) (simp_all add: assms)

lemma operator_edit:
  assumes "by_id i d0 = Some l0"
  shows "\<exists>d res. update_lead dumps loads d0 i
                   [(''status'', JStr s), (''notes'', JStr nt), (''tags'', tg)] = Inr (d, res)
           \<and> by_id i d = Some (l0\<lparr> status := s, notes := nt,
                                    tags := dumps (if json_truthy tg then tg else JArr []) \<rparr>)"
proof -
  define t where "t = dumps (if json_truthy tg then tg else JArr [])"
  define g where "g = (\<lambda>l::lead. l\<lparr> status := s, notes := nt, tags := t \<rparr>)"
  define bs where "bs = [(''status'', SText s), (''notes'', SText nt), (''tags'', SText t)]"
  have a: "assignments dumps [(''status'', JStr s), (''notes'', JStr nt), (''tags'', tg)]
             = [(''status'', JStr s), (''notes'', JStr nt), (''tags'', JStr t)]"
    by (simp add: assignments_def allowed_def t_def)
  have b: "bind_all [(''status'', JStr s), (''notes'', JStr nt), (''tags'', JStr t)] = Inr bs"
    by (simp add: bind_err_def bs_def)
  have f: "(\<lambda>l. if lead_id l = i then fold (\<lambda>(k, v). set_column k v) bs l else l)
             = (\<lambda>l. if lead_id l = i then g l else l)"
    by (rule ext) (simp add: set_column_def bs_def g_def)
  have n: "\<not> list_ex (\<lambda>(k, v). v = SNull) bs"
    by (simp add: bs_def)
  define d where "d = d0\<lparr> leads := map (\<lambda>l. if lead_id l = i then g l else l) (leads d0) \<rparr>"
  have u: "update_lead dumps loads d0 i [(''status'', JStr s), (''notes'', JStr nt), (''tags'', tg)]
             = Inr (d, get_lead loads d i)"
    unfolding update_lead_def a Let_def
    by (simp add: bind_err_def sql_update_def f [unfolded bs_def] d_def)
  have "find (\<lambda>l. lead_id l = i) (map (\<lambda>l. if lead_id l = i then g l else l) (leads d0))
          = map_option g (find (\<lambda>l. lead_id l = i) (leads d0))"
    by (rule find_map_by_id) (simp add: g_def)
  then have "by_id i d = Some (g l0)"
    using assms by (simp add: by_id_def d_def)
  with u show ?thesis unfolding g_def t_def by blast
qed

text \<open>
  Claim C2.  An ingestion of any batch of rows leaves the id, status, notes and tags of every
  stored lead as they were (new leads are appended).  \<^verbatim>\<open>update_lead\<close> changes nothing but
  the status, notes and tags of the lead with the given id.  It takes each of the three
  fields, and what the operator has set is still there after any later ingestion.
\<close>

theorem ingestion_keeps_operator_fields:
  "(upsert_leads_from_rows pf now d rs src c sf = Inr (d', n)
      \<longrightarrow> prefix (map operator_fields (leads d)) (map operator_fields (leads d'))
          \<and> (\<forall>l. by_id i d = Some l
                 \<longrightarrow> (\<exists>l'. by_id i d' = Some l' \<and> status l' = status l \<and> notes l' = notes l
                                \<and> tags l' = tags l)))
   \<and> (update_lead dumps loads d_init i patch = Inr (d, res)
      \<longrightarrow> map non_operator (leads d) = map non_operator (leads d_init)
          \<and> rowid_seq d = rowid_seq d_init
          \<and> filter (\<lambda>l. lead_id l \<noteq> i) (leads d) = filter (\<lambda>l. lead_id l \<noteq> i) (leads d_init))
   \<and> (by_id i d_init = Some l_init
      \<longrightarrow> (\<exists>d1 res1.
             update_lead dumps loads d_init i
               [(''status'', JStr s), (''notes'', JStr nt), (''tags'', tg)] = Inr (d1, res1)
             \<and> by_id i d1 = Some (l_init\<lparr> status := s, notes := nt,
                                       tags := dumps (if json_truthy tg then tg else JArr []) \<rparr>)
             \<and> (\<forall>d2 m. upsert_leads_from_rows pf now d1 rs src c sf = Inr (d2, m)
                   \<longrightarrow> (\<exists>l2. by_id i d2 = Some l2 \<and> status l2 = s \<and> notes l2 = nt
                           \<and> tags l2 = dumps (if json_truthy tg then tg else JArr [])))))"
proof -
  have ing: "prefix (map operator_fields (leads a)) (map operator_fields (leads b))
             \<and> (\<forall>l. by_id i a = Some l
                 \<longrightarrow> (\<exists>l'. by_id i b = Some l' \<and> status l' = status l \<and> notes l' = notes l
                                \<and> tags l' = tags l))"
    if u: "upsert_leads_from_rows pf now a rs src c sf = Inr (b, k)" for a b k
  proof (intro conjI allI impI)
    from u show p: "prefix (map operator_fields (leads a)) (map operator_fields (leads b))"
      unfolding upsert_leads_from_rows_def by (rule upsert_rows_operator)
    fix l assume "by_id i a = Some l"
    with find_prefix_operator [OF p, of i l]
    show "\<exists>l'. by_id i b = Some l' \<and> status l' = status l \<and> notes l' = notes l \<and> tags l' = tags l"
      by (auto simp: by_id_def operator_fields_def)
  qed
  have upd: "map non_operator (leads d) = map non_operator (leads d_init)
          \<and> rowid_seq d = rowid_seq d_init
          \<and> filter (\<lambda>l. lead_id l \<noteq> i) (leads d) = filter (\<lambda>l. lead_id l \<noteq> i) (leads d_init)"
    if u: "update_lead dumps loads d_init i patch = Inr (d, res)"
    using update_lead_frame [OF u] by simp
  have edit: "\<exists>d1 res1.
             update_lead dumps loads d_init i
               [(''status'', JStr s), (''notes'', JStr nt), (''tags'', tg)] = Inr (d1, res1)
             \<and> by_id i d1 = Some (l_init\<lparr> status := s, notes := nt,
                                       tags := dumps (if json_truthy tg then tg else JArr []) \<rparr>)
             \<and> (\<forall>d2 m. upsert_leads_from_rows pf now d1 rs src c sf = Inr (d2, m)
                   \<longrightarrow> (\<exists>l2. by_id i d2 = Some l2 \<and> status l2 = s \<and> notes l2 = nt
                           \<and> tags l2 = dumps (if json_truthy tg then tg else JArr [])))"
    if b: "by_id i d_init = Some l_init"
  proof -
    from operator_edit [OF b] obtain d1 res1 where
      1: "update_lead dumps loads d_init i
            [(''status'', JStr s), (''notes'', JStr nt), (''tags'', tg)] = Inr (d1, res1)"
      and 2: "by_id i d1 = Some (l_init\<lparr> status := s, notes := nt,
                                    tags := dumps (if json_truthy tg then tg else JArr []) \<rparr>)"
      by blast
    have "\<exists>l2. by_id i d2 = Some l2 \<and> status l2 = s \<and> notes l2 = nt
                \<and> tags l2 = dumps (if json_truthy tg then tg else JArr [])"
      if "upsert_leads_from_rows pf now d1 rs src c sf = Inr (d2, m)" for d2 m
      using ing [OF that] 2 by fastforce
    with 1 2 show ?thesis by blast
  qed
  from ing upd edit show ?thesis by blast
qed


theorem ingestion_keeps_operator_fields_witness:
  "\<exists>d' n l' d1 res1 d2 m l2.
      upsert_leads_from_rows (\<lambda>s. None) 200 sample_db [sample_row] ''Instagram'' False None
        = Inr (d', n)
      \<and> by_id 1 sample_db = Some sample_lead
      \<and> by_id 1 d' = Some l' \<and> status l' = ''contacted'' \<and> notes l' = ''call back on Monday''
      \<and> tags l' = ''[]''
      \<and> update_lead (\<lambda>v. ''[]'') (\<lambda>s. None) sample_db 1
           [(''status'', JStr ''won''), (''notes'', JStr ''signed''), (''tags'', JNull)]
          = Inr (d1, res1)
      \<and> map non_operator (leads d1) = map non_operator (leads sample_db)
      \<and> upsert_leads_from_rows (\<lambda>s. None) 200 d1 [sample_row] ''Instagram'' False None
          = Inr (d2, m)
      \<and> by_id 1 d2 = Some l2 \<and> status l2 = ''won'' \<and> notes l2 = ''signed''"
proof -
  let ?patch = "[(''status'', JStr ''won''), (''notes'', JStr ''signed''), (''tags'', JNull)]"
  let ?up = "\<lambda>d. upsert_leads_from_rows (\<lambda>s. None) 200 d [sample_row] ''Instagram'' False None"
  have "case ?up sample_db of Inl e \<Rightarrow> False | Inr p \<Rightarrow> True"
    by code_simp
  then obtain d' n where u: "?up sample_db = Inr (d', n)"
    by (cases "?up sample_db") auto
  have b: "by_id 1 sample_db = Some sample_lead"
    by code_simp
  have "case update_lead (\<lambda>v. ''[]'') (\<lambda>s. None) sample_db 1 ?patch of
          Inl e \<Rightarrow> False
        | Inr (d1, r) \<Rightarrow> (case ?up d1 of Inl e \<Rightarrow> False | Inr p \<Rightarrow> True)"
    by code_simp
  then obtain d1 res1 d2 m where
    e: "update_lead (\<lambda>v. ''[]'') (\<lambda>s. None) sample_db 1 ?patch = Inr (d1, res1)"
    and u2: "?up d1 = Inr (d2, m)"
    by (cases "update_lead (\<lambda>v. ''[]'') (\<lambda>s. None) sample_db 1 ?patch";
        cases "?up (fst (projr (update_lead (\<lambda>v. ''[]'') (\<lambda>s. None) sample_db 1 ?patch)))")
       auto
  note t = ingestion_keeps_operator_fields
             [where pf = "\<lambda>s. None" and now = 200 and rs = "[sample_row]"
                and src = "''Instagram''" and c = False and sf = None and i = 1
                and dumps = "\<lambda>v. ''[]''" and loads = "\<lambda>s. None" and d_init = sample_db
                and l_init = sample_lead and s = "''won''" and nt = "''signed''" and tg = JNull]
  from t [where d = sample_db and d' = d' and n = n] u b
  obtain l' where 1: "by_id 1 d' = Some l'" "status l' = status sample_lead"
    "notes l' = notes sample_lead" "tags l' = tags sample_lead"
    by blast
  from t [where d = d1 and patch = ?patch and res = res1] e
  have 2: "map non_operator (leads d1) = map non_operator (leads sample_db)"
    by blast
  from t b e u2
  obtain l2 where 3: "by_id 1 d2 = Some l2" "status l2 = ''won''" "notes l2 = ''signed''"
    by (metis Pair_inject sum.inject(2))
  from u b 1 e 2 u2 3 show ?thesis
    by (simp add: sample_lead_def)
qed

text \<open>
  Claim C10.  \<^verbatim>\<open>update_lead\<close> with a patch gives what it gives with the patch cut down to
  the keys \<open>status\<close>, \<open>notes\<close> and \<open>tags\<close>: any other key is passed over without an error.
  With no allowed key in the patch the store stays as it is and the current record is
  returned.
\<close>

theorem update_lead_ignores_other_keys:
  "update_lead dumps loads d i patch
     = update_lead dumps loads d i (filter (\<lambda>(k, v). k \<in> set allowed) patch)
   \<and> ((\<forall>(k, v) \<in> set patch. k \<notin> set allowed)
        \<longrightarrow> update_lead dumps loads d i patch = Inr (d, get_lead loads d i))"
proof (intro conjI impI)
  show "update_lead dumps loads d i patch
     = update_lead dumps loads d i (filter (\<lambda>(k, v). k \<in> set allowed) patch)"
    by (simp add: update_lead_def assignments_def)
next
  assume "\<forall>(k, v) \<in> set patch. k \<notin> set allowed"
  then have "filter (\<lambda>(k, v). k \<in> set allowed) patch = []"
    by (induction patch) auto
  then show "update_lead dumps loads d i patch = Inr (d, get_lead loads d i)"
    by (simp add: update_lead_def assignments_def)
qed

theorem update_lead_ignores_other_keys_witness:
  "list_all (\<lambda>(k, v). k \<notin> set allowed) [(''score'', JInt 99), (''handle'', JStr ''other'')]
   \<and> update_lead (\<lambda>v. ''[]'') (\<lambda>s. None) sample_db 1
        [(''score'', JInt 99), (''handle'', JStr ''other'')]
       = Inr (sample_db, get_lead (\<lambda>s. None) sample_db 1)
   \<and> update_lead (\<lambda>v. ''[]'') (\<lambda>s. None) sample_db 1
        [(''score'', JInt 99), (''status'', JStr ''won'')]
       = update_lead (\<lambda>v. ''[]'') (\<lambda>s. None) sample_db 1 [(''status'', JStr ''won'')]"
proof -
  have a: "\<forall>(k, v) \<in> set [(''score'', JInt 99), (''handle'', JStr ''other'')]. k \<notin> set allowed"
    by (simp add: allowed_def)
  have f: "filter (\<lambda>(k, v). k \<in> set allowed) [(''score'', JInt 99), (''status'', JStr ''won'')]
             = [(''status'', JStr ''won'')]"
    by (simp add: allowed_def)
  from update_lead_ignores_other_keys
         [of "\<lambda>v. ''[]''" "\<lambda>s. None" sample_db 1 "[(''score'', JInt 99), (''handle'', JStr ''other'')]"]
       a
  have 1: "update_lead (\<lambda>v. ''[]'') (\<lambda>s. None) sample_db 1
             [(''score'', JInt 99), (''handle'', JStr ''other'')]
           = Inr (sample_db, get_lead (\<lambda>s. None) sample_db 1)"
    by blast
  from update_lead_ignores_other_keys
         [of "\<lambda>v. ''[]''" "\<lambda>s. None" sample_db 1 "[(''score'', JInt 99), (''status'', JStr ''won'')]"]
  have 2: "update_lead (\<lambda>v. ''[]'') (\<lambda>s. None) sample_db 1
             [(''score'', JInt 99), (''status'', JStr ''won'')]
           = update_lead (\<lambda>v. ''[]'') (\<lambda>s. None) sample_db 1 [(''status'', JStr ''won'')]"
    unfolding f by blast
  from a 1 2 show ?thesis by (simp add: allowed_def)
qed

section \<open>Website audit: the scored page\<close>










text \<open>
  So it fails for a page that writes the viewport name without quotes, as HTML allows: the
  audit looks for the quoted form only and gives 59 and \<open>basic_site\<close>.
\<close>

lemma unquoted_viewport_page:
  "case audit_website no_ipv6 (\<lambda>u. Response (Some 200) u ''text/html'' unquoted_page) 1700
          ''acme.example'' \<lparr> max_bytes = 200 \<rparr> of
     None \<Rightarrow> False
   | Some (res, requested) \<Rightarrow> website_score res = 59 \<and> website_verdict res = ''basic_site''"
  by code_simp


section \<open>Record normalizer: the handle taken from the profile URL\<close>

lemma rstrip_by_Nil [simp]: "rstrip_by P [] = []"
  by (simp add: rstrip_by_def)

lemma rstrip_by_Cons:
  "rstrip_by P (x # xs) = (if rstrip_by P xs = [] \<and> P x then [] else x # rstrip_by P xs)"
  by (auto simp: rstrip_by_def dropWhile_append dropWhile_eq_Nil_conv)

lemma rstrip_by_fixed: "xs \<noteq> [] \<Longrightarrow> \<not> P (last xs) \<Longrightarrow> rstrip_by P xs = xs"
  by (cases xs rule: rev_cases) (simp_all add: rstrip_by_def)

lemma rstrip_by_last: "rstrip_by P xs \<noteq> [] \<Longrightarrow> \<not> P (last (rstrip_by P xs))"
  unfolding rstrip_by_def
  by (metis dropWhile_eq_Nil_conv hd_dropWhile last_rev rev_is_Nil_conv)

lemma rstrip_by_hd: "rstrip_by P xs \<noteq> [] \<Longrightarrow> hd (rstrip_by P xs) = hd xs"
  by (induction xs) (auto simp: rstrip_by_Cons split: if_splits)

lemma strip_by_idem: "strip_by P (strip_by P s) = strip_by P s"
proof (cases "strip_by P s = []")
  case True
  then show ?thesis by (simp add: strip_by_def lstrip_by_def)
next
  case False
  let ?t = "strip_by P s"
  have ne: "dropWhile P s \<noteq> []"
  proof
    assume "dropWhile P s = []"
    then have "strip_by P s = []" by (simp only: strip_by_def lstrip_by_def rstrip_by_Nil)
    with False show False by simp
  qed
  have "hd ?t = hd (dropWhile P s)"
    using False rstrip_by_hd [of P "dropWhile P s"] by (simp add: strip_by_def lstrip_by_def)
  then have "\<not> P (hd ?t)" using ne hd_dropWhile by metis
  then have l: "lstrip_by P ?t = ?t" using False by (cases ?t) (simp_all add: lstrip_by_def)
  have "\<not> P (last ?t)"
    using False rstrip_by_last [of P "lstrip_by P s"] by (simp add: strip_by_def)
  then have "rstrip_by P ?t = ?t" using False by (rule rstrip_by_fixed [rotated])
  with l show ?thesis by (simp add: strip_by_def [of P ?t])
qed

lemma py_strip_idem: "py_strip (py_strip s) = py_strip s"
  by (simp add: py_strip_def strip_by_idem)

lemma split1_before_char: "split1_before [c] s = takeWhile (\<lambda>x. x \<noteq> c) s"
  by (induction s) auto

lemma takeWhile_rstrip: "takeWhile (\<lambda>x. \<not> P x) (rstrip_by P u) = takeWhile (\<lambda>x. \<not> P x) u"
  by (induction u) (auto simp: rstrip_by_Cons)

lemma segment_after_spec:
  "segment_after marker p = Some h \<Longrightarrow> h = first_path_segment marker p"
  using takeWhile_rstrip [of "\<lambda>c. c = CHR ''/''"]
  by (auto simp: segment_after_def first_path_segment_def split1_before_char strip_by_def
        lstrip_by_def split: option.splits)

lemma split1_after_found:
  "sublist m p \<Longrightarrow> m \<noteq> [] \<Longrightarrow> \<exists>rest. split1_after m p = Some rest"
  by (induction p) (auto simp: sublist_Cons_right)

lemma derive_handle_spec:
  assumes "py_in ''instagram.com/'' p \<or> py_in ''facebook.com/'' p"
  shows "derive_handle p [] = first_path_segment (social_marker p) p"
proof -
  have pne: "p \<noteq> []" using assms by (auto simp: py_in_def)
  have m: "py_in (social_marker p) p" "social_marker p \<noteq> []"
    using assms by (auto simp: social_marker_def)
  then obtain rest where "split1_after (social_marker p) p = Some rest"
    using split1_after_found by (auto simp: py_in_def)
  then obtain h where h: "segment_after (social_marker p) p = Some h"
    by (simp add: segment_after_def)
  from segment_after_spec [OF h] h pne assms show ?thesis
    by (auto simp: derive_handle_def social_marker_def)
qed

lemma first_path_segment_clean:
  "CHR ''/'' \<notin> set (first_path_segment marker p) \<and> CHR ''?'' \<notin> set (first_path_segment marker p)"
proof -
  have "CHR ''?'' \<notin> set (takeWhile (\<lambda>c. c \<noteq> CHR ''/'') (dropWhile Q (takeWhile (\<lambda>c. c \<noteq> CHR ''?'') rest)))"
    for Q rest
    by (auto dest!: set_takeWhileD set_dropWhileD)
  moreover have "CHR ''/'' \<notin> set (takeWhile (\<lambda>c. c \<noteq> CHR ''/'') xs)" for xs
    by (auto dest: set_takeWhileD)
  ultimately show ?thesis by (simp add: first_path_segment_def split: option.splits)
qed

lemma py_strip_Nil [simp]: "py_strip [] = []"
  by (simp add: py_strip_def strip_by_def lstrip_by_def)

lemma strip_method_stripped: "strip_method v = Inr s \<Longrightarrow> py_strip s = s"
  by (cases v) (auto simp: py_strip_idem)

lemma alias_profile_url_cases:
  assumes "alias_profile_url out = Inr p"
  shows "p = [] \<or> (\<exists>v. strip_method v = Inr p)"
  using assms unfolding alias_profile_url_def
  by (auto simp: bind_err_Inr split: if_splits)

lemma alias_profile_url_stripped:
  assumes "alias_profile_url out = Inr p"
  shows "py_strip p = p"
  using alias_profile_url_cases [OF assms] strip_method_stripped by auto

lemma fill_from_other: "k' \<noteq> k \<Longrightarrow> fill_from k aliases m k' = m k'"
  by (simp add: fill_from_def)

lemma normalize_row_handle:
  assumes "alias_handle (lower_keys r) = Inr h0"
    and "alias_profile_url (lower_keys r) = Inr p"
    and "local_fallback (lower_keys r) src p (derive_handle p h0) = Inr h"
  shows "\<exists>out. normalize_row r src = Inr out \<and> out ''handle'' = Some (PStr h)
           \<and> out ''profile_url'' = Some (PStr p)"
  using assms by (simp add: normalize_row_def bind_err_def fill_from_other)

text \<open>
  Claim C7 as stated fails for a local-business import whose profile URL has nothing after
  the marker: the first path segment is empty, and the normalizer returns the whole URL as
  the handle.
\<close>

theorem handle_from_profile_url_counterexample:
  "alias_handle (lower_keys [(''profile_url'', PStr ''https://www.instagram.com/'')]) = Inr []
   \<and> py_in ''instagram.com/'' ''https://www.instagram.com/''
   \<and> first_path_segment ''instagram.com/'' ''https://www.instagram.com/'' = []
   \<and> (case normalize_row [(''profile_url'', PStr ''https://www.instagram.com/'')] ''google_maps'' of
         Inl e \<Rightarrow> False
       | Inr out \<Rightarrow> out ''handle'' = Some (PStr ''https://www.instagram.com/''))"
  by code_simp

text \<open>
  Claim C7, amended.  When the alias lookup leaves the handle empty and the profile URL holds
  \<open>instagram.com/\<close> or \<open>facebook.com/\<close>, the normalizer returns as handle the first path
  segment after the marker (query string and slashes removed), unless that segment is empty
  and the source is one of the local-business sources: then the handle is the profile URL.
\<close>

theorem handle_from_profile_url:
  assumes "alias_handle (lower_keys r) = Inr []"
    and "alias_profile_url (lower_keys r) = Inr p"
    and "py_in ''instagram.com/'' p \<or> py_in ''facebook.com/'' p"
  shows "\<exists>out. normalize_row r src = Inr out
           \<and> out ''handle'' =
               Some (PStr (if first_path_segment (social_marker p) p = []
                              \<and> py_lower (py_strip src) \<in> set local_sources
                           then p else first_path_segment (social_marker p) p))
           \<and> CHR ''/'' \<notin> set (first_path_segment (social_marker p) p)
           \<and> CHR ''?'' \<notin> set (first_path_segment (social_marker p) p)"
proof -
  let ?seg = "first_path_segment (social_marker p) p"
  have pne: "p \<noteq> []" using assms(3) by (auto simp: py_in_def)
  have d: "derive_handle p [] = ?seg" using assms(3) by (rule derive_handle_spec)
  have "local_fallback (lower_keys r) src p ?seg
          = Inr (if ?seg = [] \<and> py_lower (py_strip src) \<in> set local_sources then p else ?seg)"
    using pne alias_profile_url_stripped [OF assms(2)]
    by (simp add: local_fallback_def py_or_def)
  from normalize_row_handle [OF assms(1,2) this [folded d]] first_path_segment_clean [of "social_marker p" p]
  show ?thesis unfolding d by blast
qed

theorem handle_from_profile_url_witness:
  "alias_handle (lower_keys [(''Profile'', PStr '' https://instagram.com//acme.plumb/reels?hl=en '')])
     = Inr []
   \<and> alias_profile_url (lower_keys [(''Profile'', PStr '' https://instagram.com//acme.plumb/reels?hl=en '')])
       = Inr ''https://instagram.com//acme.plumb/reels?hl=en''
   \<and> (\<exists>out. normalize_row [(''Profile'', PStr '' https://instagram.com//acme.plumb/reels?hl=en '')]
                 ''instagram'' = Inr out
          \<and> out ''handle'' = Some (PStr ''acme.plumb''))"
proof -
  let ?r = "[(''Profile'', PStr '' https://instagram.com//acme.plumb/reels?hl=en '')]"
  let ?p = "''https://instagram.com//acme.plumb/reels?hl=en''"
  have 1: "alias_handle (lower_keys ?r) = Inr []" by code_simp
  have 2: "alias_profile_url (lower_keys ?r) = Inr ?p" by code_simp
  have 3: "py_in ''instagram.com/'' ?p \<or> py_in ''facebook.com/'' ?p" by code_simp
  have 4: "(if first_path_segment (social_marker ?p) ?p = []
                \<and> py_lower (py_strip ''instagram'') \<in> set local_sources
            then ?p else first_path_segment (social_marker ?p) ?p) = ''acme.plumb''"
    by code_simp
  from handle_from_profile_url [OF 1 2 3, of "''instagram''"] 1 2
  show ?thesis unfolding 4 by blast
qed
section \<open>Record normalizer: when it returns\<close>

lemma strip_method_or:
  assumes "str_or_falsy v" and "\<exists>s. strip_method w = Inr s"
  shows "\<exists>s. strip_method (py_or v w) = Inr s"
  using assms by (cases v) (auto simp: py_or_def)

lemma strip_method_empty: "\<exists>s. strip_method (PStr []) = Inr s"
  by simp

lemma alias_handle_total:
  assumes "list_all (\<lambda>k. str_or_falsy (dget out k)) text_keys"
  shows "\<exists>h. alias_handle out = Inr h"
proof -
  from assms have s: "str_or_falsy (dget out ''handle'')" "str_or_falsy (dget out ''username'')"
    "str_or_falsy (dget out ''user'')" "str_or_falsy (dget out ''page'')"
    by (simp_all add: text_keys_def)
  have "\<exists>s. strip_method
          (py_or (dget out ''handle'') (py_or (dget out ''username'')
             (py_or (dget out ''user'') (py_or (dget out ''page'') (PStr ''''))))) = Inr s"
    by (intro strip_method_or s strip_method_empty)
  then show ?thesis by (auto simp: alias_handle_def bind_err_def)
qed

lemma alias_profile_url_total:
  assumes "list_all (\<lambda>k. str_or_falsy (dget out k)) text_keys"
  shows "\<exists>p. alias_profile_url out = Inr p"
proof -
  from assms have s: "str_or_falsy (dget out ''profile_url'')" "str_or_falsy (dget out ''profile'')"
    "str_or_falsy (dget out ''profilelink'')" "str_or_falsy (dget out ''profile_link'')"
    "str_or_falsy (dget out ''url'')"
    by (simp_all add: text_keys_def)
  have "\<exists>s. strip_method
          (py_or (dget out ''profile_url'') (py_or (dget out ''profile'')
             (py_or (dget out ''profilelink'') (py_or (dget out ''profile_link'') (PStr ''''))))) = Inr s"
    by (intro strip_method_or s strip_method_empty)
  moreover have "\<exists>s. strip_method (py_or (dget out ''url'') (PStr '''')) = Inr s"
    by (intro strip_method_or s strip_method_empty)
  ultimately show ?thesis by (auto simp: alias_profile_url_def bind_err_def)
qed

lemma local_fallback_total:
  assumes "list_all (\<lambda>k. str_or_falsy (dget out k)) text_keys"
  shows "\<exists>h'. local_fallback out src p h = Inr h'"
proof -
  from assms have s: "str_or_falsy (dget out ''name'')" by (simp add: text_keys_def)
  have "\<exists>s. strip_method (py_or (PStr p) (py_or (dget out ''name'') (PStr ''''))) = Inr s"
    by (intro strip_method_or s strip_method_empty) simp
  then show ?thesis by (auto simp: local_fallback_def)
qed

lemma fill_from_key:
  "fill_from k aliases m k = Some (or_chain m (k # aliases))"
proof (cases "truthy (dget m k)")
  case True
  then obtain v where "m k = Some v" by (cases "m k") (auto simp: dget_def)
  moreover have "py_or (dget m k) z = dget m k" for z using True by (simp add: py_or_def)
  ultimately show ?thesis using True by (simp add: fill_from_def or_chain_def dget_def)
next
  case False
  then have "py_or (dget m k) z = z" for z by (simp add: py_or_def)
  with False show ?thesis by (simp add: fill_from_def or_chain_def)
qed

lemma or_chain_cong:
  assumes "\<And>k. k \<in> set ks \<Longrightarrow> m k = m' k"
  shows "or_chain m ks = or_chain m' ks"
proof -
  have "foldr (\<lambda>k rest. py_or (dget m k) rest) ks z = foldr (\<lambda>k rest. py_or (dget m' k) rest) ks z"
    for z using assms by (induction ks) (simp_all add: dget_def)
  then show ?thesis by (simp add: or_chain_def)
qed

lemma row_handle_empty:
  assumes "out ''handle'' = Some (PStr [])"
  shows "row_handle out = Inr []"
  using assms
  by (simp add: row_handle_def dget_def py_or_def bind_err_def lstrip_by_def py_strip_def
        strip_by_def rstrip_by_def)

text \<open>
  Claim C3 as stated fails for a value of the wrong type under a key the normalizer strips:
  the number 123 as handle has no \<^verbatim>\<open>strip\<close> method, the normalizer raises AttributeError and
  so does the batch that holds the row.
\<close>

theorem normalize_row_counterexample:
  "(case normalize_row [(''handle'', PInt 123)] ''manual'' of
      Inl e \<Rightarrow> e = AttributeError
    | Inr out \<Rightarrow> False)
   \<and> (case upsert_leads_from_rows (\<lambda>s. None) 200 sample_db [[(''handle'', PInt 123)]] ''manual''
              False None of
         Inl e \<Rightarrow> e = AttributeError
       | Inr res \<Rightarrow> False)"
  by code_simp

text \<open>
  Claim C3, amended.  When every value the row holds under the ten keys that are stripped
  is a string or counts as false, the normalizer returns a row: handle and profile URL are
  strings, and bio, website, phone and recent post snippet are the first true value among
  the field and its aliases, the empty string when there is none.  When the handle comes
  out empty, the batch passes the row over and stores nothing.
\<close>

theorem normalize_row_returns:
  assumes "list_all (\<lambda>k. str_or_falsy (dget (lower_keys r) k)) text_keys"
  shows "\<exists>out h p. normalize_row r src = Inr out
           \<and> out ''handle'' = Some (PStr h) \<and> out ''profile_url'' = Some (PStr p)
           \<and> out ''bio'' = Some (or_chain (lower_keys r) [''bio'', ''description'', ''about''])
           \<and> out ''website'' = Some (or_chain (lower_keys r) [''website'', ''website_url'', ''site''])
           \<and> out ''phone''
               = Some (or_chain (lower_keys r) [''phone'', ''phone_number'', ''tel'', ''mobile''])
           \<and> out ''recent_post_snippet''
               = Some (or_chain (lower_keys r)
                         [''recent_post_snippet'', ''snippet'', ''caption'', ''post_text''])
           \<and> (h = [] \<and> src = row_source s
                \<longrightarrow> upsert_row pf now s c sf d r = Inr (d, 0))"
proof -
  let ?o = "lower_keys r"
  from alias_handle_total [OF assms] obtain h0 where h0: "alias_handle ?o = Inr h0" ..
  from alias_profile_url_total [OF assms] obtain p where p: "alias_profile_url ?o = Inr p" ..
  from local_fallback_total [OF assms] obtain h where
    h: "local_fallback ?o src p (derive_handle p h0) = Inr h" ..
  define o1 where "o1 = ?o(''handle'' \<mapsto> PStr h, ''profile_url'' \<mapsto> PStr p)"
  define o2 where "o2 = fill_from ''bio'' [''description'', ''about''] o1"
  define o3 where "o3 = fill_from ''website'' [''website_url'', ''site''] o2"
  define o4 where "o4 = fill_from ''phone'' [''phone_number'', ''tel'', ''mobile''] o3"
  define out where
    "out = fill_from ''recent_post_snippet'' [''snippet'', ''caption'', ''post_text''] o4"
  have n: "normalize_row r src = Inr out"
    using h0 p h by (simp add: normalize_row_def bind_err_def out_def o4_def o3_def o2_def o1_def)
  have other: "fill_from k aliases m k' = m k'" if "k' \<noteq> k" for k k' aliases m
    using that by (simp add: fill_from_def)
  have hd: "out ''handle'' = Some (PStr h)"
    by (simp add: out_def o4_def o3_def o2_def o1_def other)
  have pu: "out ''profile_url'' = Some (PStr p)"
    by (simp add: out_def o4_def o3_def o2_def o1_def other)
  have bio: "out ''bio'' = Some (or_chain ?o [''bio'', ''description'', ''about''])"
  proof -
    have "out ''bio'' = o2 ''bio''" by (simp add: out_def o4_def o3_def other)
    also have "\<dots> = Some (or_chain o1 [''bio'', ''description'', ''about''])"
      unfolding o2_def by (rule fill_from_key)
    also have "or_chain o1 [''bio'', ''description'', ''about'']
                 = or_chain ?o [''bio'', ''description'', ''about'']"
      by (rule or_chain_cong) (auto simp: o1_def)
    finally show ?thesis .
  qed
  have web: "out ''website'' = Some (or_chain ?o [''website'', ''website_url'', ''site''])"
  proof -
    have "out ''website'' = o3 ''website''" by (simp add: out_def o4_def other)
    also have "\<dots> = Some (or_chain o2 [''website'', ''website_url'', ''site''])"
      unfolding o3_def by (rule fill_from_key)
    also have "or_chain o2 [''website'', ''website_url'', ''site'']
                 = or_chain ?o [''website'', ''website_url'', ''site'']"
      by (rule or_chain_cong) (auto simp: o2_def o1_def other)
    finally show ?thesis .
  qed
  have ph: "out ''phone''
              = Some (or_chain ?o [''phone'', ''phone_number'', ''tel'', ''mobile''])"
  proof -
    have "out ''phone'' = o4 ''phone''" by (simp add: out_def other)
    also have "\<dots> = Some (or_chain o3 [''phone'', ''phone_number'', ''tel'', ''mobile''])"
      unfolding o4_def by (rule fill_from_key)
    also have "or_chain o3 [''phone'', ''phone_number'', ''tel'', ''mobile'']
                 = or_chain ?o [''phone'', ''phone_number'', ''tel'', ''mobile'']"
      by (rule or_chain_cong) (auto simp: o3_def o2_def o1_def other)
    finally show ?thesis .
  qed
  have sn: "out ''recent_post_snippet''
              = Some (or_chain ?o [''recent_post_snippet'', ''snippet'', ''caption'', ''post_text''])"
  proof -
    have "out ''recent_post_snippet''
            = Some (or_chain o4 [''recent_post_snippet'', ''snippet'', ''caption'', ''post_text''])"
      unfolding out_def by (rule fill_from_key)
    also have "or_chain o4 [''recent_post_snippet'', ''snippet'', ''caption'', ''post_text'']
                 = or_chain ?o [''recent_post_snippet'', ''snippet'', ''caption'', ''post_text'']"
      by (rule or_chain_cong) (auto simp: o4_def o3_def o2_def o1_def other)
    finally show ?thesis .
  qed
  have skip: "upsert_row pf now s c sf d r = Inr (d, 0)" if "h = []" "src = row_source s"
  proof -
    from that hd have "row_handle out = Inr []" by (simp add: row_handle_empty)
    with n that(2) show ?thesis by (simp add: upsert_row_def bind_err_def)
  qed
  from n hd pu bio web ph sn skip show ?thesis by blast
qed

theorem normalize_row_returns_witness:
  "list_all (\<lambda>k. str_or_falsy (dget (lower_keys [(''Name'', PStr ''Acme''), (''Followers'', PInt 5),
                                                   (''About'', PStr ''Plumber'')]) k)) text_keys
   \<and> (\<exists>out. normalize_row [(''Name'', PStr ''Acme''), (''Followers'', PInt 5),
                            (''About'', PStr ''Plumber'')] ''manual'' = Inr out
          \<and> out ''handle'' = Some (PStr [])
          \<and> out ''bio'' = Some (PStr ''Plumber'') \<and> out ''phone'' = Some (PStr []))
   \<and> upsert_row (\<lambda>s. None) 200 ''Manual'' False None sample_db
        [(''Name'', PStr ''Acme''), (''Followers'', PInt 5), (''About'', PStr ''Plumber'')]
       = Inr (sample_db, 0)"
proof -
  let ?r = "[(''Name'', PStr ''Acme''), (''Followers'', PInt 5), (''About'', PStr ''Plumber'')]"
  have a: "list_all (\<lambda>k. str_or_falsy (dget (lower_keys ?r) k)) text_keys" by code_simp
  have c: "case normalize_row ?r ''manual'' of
             Inl e \<Rightarrow> False | Inr out \<Rightarrow> out ''handle'' = Some (PStr [])"
    by code_simp
  have s: "''manual'' = row_source ''Manual''" by code_simp
  have b: "or_chain (lower_keys ?r) [''bio'', ''description'', ''about''] = PStr ''Plumber''"
    by code_simp
  have f: "or_chain (lower_keys ?r) [''phone'', ''phone_number'', ''tel'', ''mobile''] = PStr []"
    by code_simp
  from normalize_row_returns [OF a, where src = "''manual''" and s = "''Manual''"
         and pf = "\<lambda>s. None" and now = 200 and c = False and sf = None and d = sample_db]
  obtain out h where o: "normalize_row ?r ''manual'' = Inr out"
    and oh: "out ''handle'' = Some (PStr h)"
    and ob: "out ''bio'' = Some (or_chain (lower_keys ?r) [''bio'', ''description'', ''about''])"
    and op: "out ''phone''
               = Some (or_chain (lower_keys ?r) [''phone'', ''phone_number'', ''tel'', ''mobile''])"
    and sk: "h = [] \<and> ''manual'' = row_source ''Manual''
               \<longrightarrow> upsert_row (\<lambda>s. None) 200 ''Manual'' False None sample_db ?r
                     = Inr (sample_db, 0)"
    by blast
  from c o oh have "h = []" by simp
  with sk s have "upsert_row (\<lambda>s. None) 200 ''Manual'' False None sample_db ?r = Inr (sample_db, 0)"
    by blast
  with a o oh ob op \<open>h = []\<close> show ?thesis unfolding b f by blast
qed
section \<open>Scoring: the reason codes\<close>






















section \<open>Scoring: a WhatsApp mention\<close>







end
